theory Spec2Isabelle
  imports Main "HOL-Library.Word" "HOL-Library.Multiset"
begin

unbundle bit_operations_syntax

section \<open>Basic types and constants (types.h)\<close>

text \<open>
  The runtime is C for an LP64 target: \<open>size_t\<close> and pointers are 64 bits wide.
  Unsigned arithmetic wraps, which the word types do as well. A pointer is the
  address it holds; \<open>NULL\<close> is address 0.
\<close>

type_synonym u8 = "8 word"
type_synonym u32 = "32 word"
type_synonym i32 = "32 word"
type_synonym u64 = "64 word"
type_synonym usize = "64 word"
type_synonym addr = "64 word"

abbreviation (input) NULL :: addr where "NULL \<equiv> 0"
abbreviation (input) ADEAD_ALIGNMENT :: usize where "ADEAD_ALIGNMENT \<equiv> 16"
abbreviation (input) ADEAD_MAX_DIMS :: nat where "ADEAD_MAX_DIMS \<equiv> 8"

text \<open>The enum \<open>ADeadError\<close>. The code only produces and compares these values.\<close>

datatype ADeadError =
    ADEAD_OK
  | ADEAD_ERROR_INIT
  | ADEAD_ERROR_MEMORY
  | ADEAD_ERROR_INVALID_OP
  | ADEAD_ERROR_BACKEND
  | ADEAD_ERROR_VULKAN
  | ADEAD_ERROR_CUDA
  | ADEAD_ERROR_SHADER
  | ADEAD_ERROR_OUT_OF_MEMORY
  | ADEAD_ERROR_INVALID_PARAM

text \<open>
  The enums \<open>ADeadBackend\<close> and \<open>ADeadDType\<close> are switched on with a
  \<open>default\<close> branch, so a value of the enum type may be any integer: they are
  modelled by their numeric values.
\<close>

type_synonym ADeadBackend = int
type_synonym ADeadDType = int

abbreviation (input) ADEAD_BACKEND_CPU :: ADeadBackend where "ADEAD_BACKEND_CPU \<equiv> 0"
abbreviation (input) ADEAD_BACKEND_CUDA :: ADeadBackend where "ADEAD_BACKEND_CUDA \<equiv> 1"
abbreviation (input) ADEAD_BACKEND_VULKAN :: ADeadBackend where "ADEAD_BACKEND_VULKAN \<equiv> 2"
abbreviation (input) ADEAD_BACKEND_AUTO :: ADeadBackend where "ADEAD_BACKEND_AUTO \<equiv> 255"

abbreviation (input) ADEAD_DTYPE_F32 :: ADeadDType where "ADEAD_DTYPE_F32 \<equiv> 0"
abbreviation (input) ADEAD_DTYPE_F64 :: ADeadDType where "ADEAD_DTYPE_F64 \<equiv> 1"
abbreviation (input) ADEAD_DTYPE_I32 :: ADeadDType where "ADEAD_DTYPE_I32 \<equiv> 2"
abbreviation (input) ADEAD_DTYPE_I64 :: ADeadDType where "ADEAD_DTYPE_I64 \<equiv> 3"
abbreviation (input) ADEAD_DTYPE_U8 :: ADeadDType where "ADEAD_DTYPE_U8 \<equiv> 4"
abbreviation (input) ADEAD_DTYPE_I8 :: ADeadDType where "ADEAD_DTYPE_I8 \<equiv> 5"
abbreviation (input) ADEAD_DTYPE_F16 :: ADeadDType where "ADEAD_DTYPE_F16 \<equiv> 6"
abbreviation (input) ADEAD_DTYPE_BF16 :: ADeadDType where "ADEAD_DTYPE_BF16 \<equiv> 7"

definition adead_dtype_size :: "ADeadDType \<Rightarrow> u32" where
  "adead_dtype_size dtype =
     (if dtype = ADEAD_DTYPE_F32 then 4
      else if dtype = ADEAD_DTYPE_F64 then 8
      else if dtype = ADEAD_DTYPE_I32 then 4
      else if dtype = ADEAD_DTYPE_I64 then 8
      else if dtype = ADEAD_DTYPE_U8 then 1
      else if dtype = ADEAD_DTYPE_I8 then 1
      else if dtype = ADEAD_DTYPE_F16 then 2
      else if dtype = ADEAD_DTYPE_BF16 then 2
      else 0)"

section \<open>The C environment: malloc, free and the memory the code writes\<close>

text \<open>
  The state outside the structs the functions are handed.
  \<^item> \<open>malloc_script\<close> lists the results of the calls of \<open>malloc\<close> still to come
    (\<open>NULL\<close> for a call that fails; an exhausted script fails too), so that a theorem
    about every script is a theorem about every behaviour of the allocator.
  \<^item> \<open>live_blocks\<close> holds the blocks obtained from \<open>malloc\<close> and not yet passed to
    \<open>free\<close>.
  \<^item> Memory is split by the C type stored in it: \<open>block_next\<close> is the field
    \<open>next\<close> of the \<open>ADeadPoolBlock\<close> at an address, \<open>cpu_ctx_at\<close> the
    \<open>CPUBackendCtx\<close> at an address, \<open>bytes\<close> the raw bytes of tensor data and
    caller buffers.
  \<^item> The numeric kernels of the CPU backend compute on IEEE floats, which are not
    modelled: a kernel is represented by the record of its invocation, appended to
    \<open>kernel_calls\<close>.
\<close>

record CPUBackendCtx =
  ctx_allocated :: usize
  ctx_peak :: usize

datatype kernel_call =
    MatmulCall addr addr addr addr i32 i32 i32
  | AddCall addr addr addr addr i32
  | ReluCall addr addr addr i32
  | SoftmaxCall addr addr addr i32 i32

record world =
  malloc_script :: "addr list"
  live_blocks :: "addr multiset"
  block_next :: "addr \<Rightarrow> addr"
  cpu_ctx_at :: "addr \<Rightarrow> CPUBackendCtx"
  bytes :: "addr \<Rightarrow> u8"
  kernel_calls :: "kernel_call list"

definition malloc :: "world \<Rightarrow> usize \<Rightarrow> addr \<times> world" where
  "malloc w n =
     (case malloc_script w of
        [] \<Rightarrow> (NULL, w)
      | p # ps \<Rightarrow>
          (p, w\<lparr>malloc_script := ps,
                live_blocks := (if p = NULL then live_blocks w
                                else add_mset p (live_blocks w))\<rparr>))"

definition c_free :: "world \<Rightarrow> addr \<Rightarrow> world" where
  "c_free w p = (if p = NULL then w else w\<lparr>live_blocks := live_blocks w - {#p#}\<rparr>)"

definition memcpy :: "world \<Rightarrow> addr \<Rightarrow> addr \<Rightarrow> usize \<Rightarrow> world" where
  "memcpy w dst src n =
     w\<lparr>bytes := (\<lambda>x. if x - dst < n then bytes w (src + (x - dst)) else bytes w x)\<rparr>"

section \<open>Memory manager (memory.h, memory.c)\<close>

text \<open>
  Every function of memory.c takes a pointer to the struct it works on and starts by
  testing it against \<open>NULL\<close>. A struct pointer is modelled as an option of the
  struct it points to (\<open>None\<close> is \<open>NULL\<close>), and a function returns the struct as
  it has left it. Each function is given in two parts: the part that runs once the
  pointer is known not to be \<open>NULL\<close> (named without the \<open>adead_\<close> prefix; this is
  what the callers inside the library reach through \<open>&mm->scratch\<close> and the like), and
  the entry point under the source's name, which adds the \<open>NULL\<close> branch.
\<close>

definition adead_align_up :: "usize \<Rightarrow> usize \<Rightarrow> usize" where
  "adead_align_up sz alignment = (sz + alignment - 1) AND NOT (alignment - 1)"

definition adead_is_aligned :: "addr \<Rightarrow> usize \<Rightarrow> bool" where
  "adead_is_aligned ptr alignment = (ptr AND (alignment - 1) = 0)"

subsection \<open>Arena allocator\<close>

record ADeadArena =
  arena_base :: addr
  arena_offset :: usize
  arena_capacity :: usize
  arena_peak :: usize

definition arena_init :: "world \<Rightarrow> ADeadArena \<Rightarrow> usize \<Rightarrow> ADeadError \<times> ADeadArena \<times> world" where
  "arena_init w arena capacity =
     (if capacity = 0 then (ADEAD_ERROR_INVALID_PARAM, arena, w)
      else
        (case malloc w capacity of
           (p, w') \<Rightarrow>
             if p = NULL then (ADEAD_ERROR_OUT_OF_MEMORY, arena\<lparr>arena_base := p\<rparr>, w')
             else
               (ADEAD_OK,
                arena\<lparr>arena_base := p, arena_offset := 0,
                      arena_capacity := capacity, arena_peak := 0\<rparr>,
                w')))"

definition adead_arena_init ::
  "world \<Rightarrow> ADeadArena option \<Rightarrow> usize \<Rightarrow> ADeadError \<times> ADeadArena option \<times> world" where
  "adead_arena_init w arena capacity =
     (case arena of
        None \<Rightarrow> (ADEAD_ERROR_INVALID_PARAM, None, w)
      | Some a \<Rightarrow> (case arena_init w a capacity of (e, a', w') \<Rightarrow> (e, Some a', w')))"

definition arena_destroy :: "world \<Rightarrow> ADeadArena \<Rightarrow> ADeadArena \<times> world" where
  "arena_destroy w arena =
     (if arena_base arena \<noteq> NULL
      then (arena\<lparr>arena_base := NULL, arena_offset := 0,
                  arena_capacity := 0, arena_peak := 0\<rparr>,
            c_free w (arena_base arena))
      else (arena, w))"

definition adead_arena_destroy ::
  "world \<Rightarrow> ADeadArena option \<Rightarrow> ADeadArena option \<times> world" where
  "adead_arena_destroy w arena =
     (case arena of
        None \<Rightarrow> (None, w)
      | Some a \<Rightarrow> (case arena_destroy w a of (a', w') \<Rightarrow> (Some a', w')))"

definition arena_alloc :: "ADeadArena \<Rightarrow> usize \<Rightarrow> usize \<Rightarrow> addr \<times> ADeadArena" where
  "arena_alloc arena sz alignment =
     (if arena_base arena = NULL \<or> sz = 0 then (NULL, arena)
      else
        (let aligned_offset = adead_align_up (arena_offset arena) alignment in
         if aligned_offset + sz > arena_capacity arena then (NULL, arena)
         else
           (let ptr = arena_base arena + aligned_offset;
                arena1 = arena\<lparr>arena_offset := aligned_offset + sz\<rparr>;
                arena2 = (if arena_offset arena1 > arena_peak arena1
                          then arena1\<lparr>arena_peak := arena_offset arena1\<rparr>
                          else arena1)
            in (ptr, arena2))))"

definition adead_arena_alloc ::
  "ADeadArena option \<Rightarrow> usize \<Rightarrow> usize \<Rightarrow> addr \<times> ADeadArena option" where
  "adead_arena_alloc arena sz alignment =
     (case arena of
        None \<Rightarrow> (NULL, None)
      | Some a \<Rightarrow> (case arena_alloc a sz alignment of (ptr, a') \<Rightarrow> (ptr, Some a')))"

definition arena_reset :: "ADeadArena \<Rightarrow> ADeadArena" where
  "arena_reset arena = arena\<lparr>arena_offset := 0\<rparr>"

definition adead_arena_reset :: "ADeadArena option \<Rightarrow> ADeadArena option" where
  "adead_arena_reset arena = map_option arena_reset arena"

definition adead_arena_used :: "ADeadArena option \<Rightarrow> usize" where
  "adead_arena_used arena = (case arena of None \<Rightarrow> 0 | Some a \<Rightarrow> arena_offset a)"

definition adead_arena_available :: "ADeadArena option \<Rightarrow> usize" where
  "adead_arena_available arena =
     (case arena of None \<Rightarrow> 0 | Some a \<Rightarrow> arena_capacity a - arena_offset a)"

subsection \<open>Pool allocator\<close>

text \<open>
  The free list is threaded through the free blocks themselves: the link of a block
  is the \<open>ADeadPoolBlock\<close> stored at the block's own address, that is
  \<open>block_next\<close> of the world at that address.
\<close>

record ADeadPool =
  pool_base :: addr
  pool_free_list :: addr
  pool_block_size :: usize
  pool_capacity :: usize
  pool_used :: usize

abbreviation (input) sizeof_ADeadPoolBlock :: usize where "sizeof_ADeadPoolBlock \<equiv> 8"

text \<open>
  The loop that builds the free list, shared by \<open>adead_pool_init\<close> and
  \<open>adead_pool_reset\<close>: for \<open>i\<close> from 0 below the block count, block \<open>i\<close> gets
  the current head as its link and becomes the head.
\<close>

definition thread_free_list ::
  "addr \<Rightarrow> usize \<Rightarrow> usize \<Rightarrow> (addr \<Rightarrow> addr) \<Rightarrow> addr \<times> (addr \<Rightarrow> addr)" where
  "thread_free_list base block_size num_blocks nxt =
     fold (\<lambda>i (free_list, nx).
             let block = base + of_nat i * block_size
             in (block, nx(block := free_list)))
          [0..<unat num_blocks] (NULL, nxt)"

definition pool_init ::
  "world \<Rightarrow> ADeadPool \<Rightarrow> usize \<Rightarrow> usize \<Rightarrow> ADeadError \<times> ADeadPool \<times> world" where
  "pool_init w pool block_size num_blocks =
     (if block_size = 0 \<or> num_blocks = 0 then (ADEAD_ERROR_INVALID_PARAM, pool, w)
      else
        (let block_size1 = (if block_size < sizeof_ADeadPoolBlock
                            then sizeof_ADeadPoolBlock else block_size);
             block_size2 = adead_align_up block_size1 ADEAD_ALIGNMENT;
             total_size = block_size2 * num_blocks
         in case malloc w total_size of
              (p, w') \<Rightarrow>
                if p = NULL then (ADEAD_ERROR_OUT_OF_MEMORY, pool\<lparr>pool_base := p\<rparr>, w')
                else
                  (case thread_free_list p block_size2 num_blocks (block_next w') of
                     (free_list, nx) \<Rightarrow>
                       (ADEAD_OK,
                        pool\<lparr>pool_base := p, pool_free_list := free_list,
                             pool_block_size := block_size2,
                             pool_capacity := num_blocks, pool_used := 0\<rparr>,
                        w'\<lparr>block_next := nx\<rparr>))))"

definition adead_pool_init ::
  "world \<Rightarrow> ADeadPool option \<Rightarrow> usize \<Rightarrow> usize \<Rightarrow> ADeadError \<times> ADeadPool option \<times> world" where
  "adead_pool_init w pool block_size num_blocks =
     (case pool of
        None \<Rightarrow> (ADEAD_ERROR_INVALID_PARAM, None, w)
      | Some p \<Rightarrow>
          (case pool_init w p block_size num_blocks of (e, p', w') \<Rightarrow> (e, Some p', w')))"

definition pool_destroy :: "world \<Rightarrow> ADeadPool \<Rightarrow> ADeadPool \<times> world" where
  "pool_destroy w pool =
     (if pool_base pool \<noteq> NULL
      then (pool\<lparr>pool_base := NULL, pool_free_list := NULL, pool_block_size := 0,
                 pool_capacity := 0, pool_used := 0\<rparr>,
            c_free w (pool_base pool))
      else (pool, w))"

definition adead_pool_destroy :: "world \<Rightarrow> ADeadPool option \<Rightarrow> ADeadPool option \<times> world" where
  "adead_pool_destroy w pool =
     (case pool of
        None \<Rightarrow> (None, w)
      | Some p \<Rightarrow> (case pool_destroy w p of (p', w') \<Rightarrow> (Some p', w')))"

definition pool_alloc :: "world \<Rightarrow> ADeadPool \<Rightarrow> addr \<times> ADeadPool" where
  "pool_alloc w pool =
     (if pool_free_list pool = NULL then (NULL, pool)
      else
        (let block = pool_free_list pool
         in (block, pool\<lparr>pool_free_list := block_next w block,
                          pool_used := pool_used pool + 1\<rparr>)))"

definition adead_pool_alloc :: "world \<Rightarrow> ADeadPool option \<Rightarrow> addr \<times> ADeadPool option" where
  "adead_pool_alloc w pool =
     (case pool of
        None \<Rightarrow> (NULL, None)
      | Some p \<Rightarrow> (case pool_alloc w p of (ptr, p') \<Rightarrow> (ptr, Some p')))"

definition pool_free :: "world \<Rightarrow> ADeadPool \<Rightarrow> addr \<Rightarrow> ADeadPool \<times> world" where
  "pool_free w pool ptr =
     (if ptr = NULL then (pool, w)
      else if ptr < pool_base pool
              \<or> ptr \<ge> pool_base pool + pool_block_size pool * pool_capacity pool
      then (pool, w)
      else
        (pool\<lparr>pool_free_list := ptr, pool_used := pool_used pool - 1\<rparr>,
         w\<lparr>block_next := (block_next w)(ptr := pool_free_list pool)\<rparr>))"

definition adead_pool_free ::
  "world \<Rightarrow> ADeadPool option \<Rightarrow> addr \<Rightarrow> ADeadPool option \<times> world" where
  "adead_pool_free w pool ptr =
     (case pool of
        None \<Rightarrow> (None, w)
      | Some p \<Rightarrow> (case pool_free w p ptr of (p', w') \<Rightarrow> (Some p', w')))"

definition pool_reset :: "world \<Rightarrow> ADeadPool \<Rightarrow> ADeadPool \<times> world" where
  "pool_reset w pool =
     (if pool_base pool = NULL then (pool, w)
      else
        (case thread_free_list (pool_base pool) (pool_block_size pool)
                (pool_capacity pool) (block_next w) of
           (free_list, nx) \<Rightarrow>
             (pool\<lparr>pool_free_list := free_list, pool_used := 0\<rparr>,
              w\<lparr>block_next := nx\<rparr>)))"

definition adead_pool_reset :: "world \<Rightarrow> ADeadPool option \<Rightarrow> ADeadPool option \<times> world" where
  "adead_pool_reset w pool =
     (case pool of
        None \<Rightarrow> (None, w)
      | Some p \<Rightarrow> (case pool_reset w p of (p', w') \<Rightarrow> (Some p', w')))"

text \<open>
  Reading the free list off the memory: the blocks reached from \<open>p\<close> through the
  links, stopping at \<open>NULL\<close> or after \<open>n\<close> blocks.
\<close>

fun free_list_blocks :: "nat \<Rightarrow> (addr \<Rightarrow> addr) \<Rightarrow> addr \<Rightarrow> addr list" where
  "free_list_blocks 0 nx p = []"
| "free_list_blocks (Suc n) nx p = (if p = NULL then [] else p # free_list_blocks n nx (nx p))"

subsection \<open>Memory manager\<close>

record ADeadMemoryManager =
  mm_scratch :: ADeadArena
  mm_tensor_pool :: ADeadPool
  mm_total_alloc :: usize
  mm_total_freed :: usize
  mm_alloc_count :: u32
  mm_free_count :: u32

text \<open>What \<open>memset(mm, 0, sizeof(ADeadMemoryManager))\<close> leaves.\<close>

definition zero_arena :: ADeadArena where
  "zero_arena = \<lparr>arena_base = NULL, arena_offset = 0, arena_capacity = 0, arena_peak = 0\<rparr>"

definition zero_pool :: ADeadPool where
  "zero_pool = \<lparr>pool_base = NULL, pool_free_list = NULL, pool_block_size = 0,
                pool_capacity = 0, pool_used = 0\<rparr>"

definition zero_memory_manager :: ADeadMemoryManager where
  "zero_memory_manager =
     \<lparr>mm_scratch = zero_arena, mm_tensor_pool = zero_pool, mm_total_alloc = 0,
      mm_total_freed = 0, mm_alloc_count = 0, mm_free_count = 0\<rparr>"

definition memory_init ::
  "world \<Rightarrow> usize \<Rightarrow> usize \<Rightarrow> ADeadError \<times> ADeadMemoryManager \<times> world" where
  "memory_init w scratch_size pool_size =
     (let mm = zero_memory_manager in
      case arena_init w (mm_scratch mm) scratch_size of
        (err, scratch, w1) \<Rightarrow>
          (let mm1 = mm\<lparr>mm_scratch := scratch\<rparr> in
           if err \<noteq> ADEAD_OK then (err, mm1, w1)
           else
             (case pool_init w1 (mm_tensor_pool mm1) 256 (pool_size div 256) of
                (err2, pool, w2) \<Rightarrow>
                  (let mm2 = mm1\<lparr>mm_tensor_pool := pool\<rparr> in
                   if err2 \<noteq> ADEAD_OK
                   then (case arena_destroy w2 (mm_scratch mm2) of
                           (scratch', w3) \<Rightarrow> (err2, mm2\<lparr>mm_scratch := scratch'\<rparr>, w3))
                   else (ADEAD_OK, mm2, w2)))))"

definition adead_memory_init ::
  "world \<Rightarrow> ADeadMemoryManager option \<Rightarrow> usize \<Rightarrow> usize
     \<Rightarrow> ADeadError \<times> ADeadMemoryManager option \<times> world" where
  "adead_memory_init w mm scratch_size pool_size =
     (case mm of
        None \<Rightarrow> (ADEAD_ERROR_INVALID_PARAM, None, w)
      | Some _ \<Rightarrow>
          (case memory_init w scratch_size pool_size of (e, mm', w') \<Rightarrow> (e, Some mm', w')))"

definition memory_destroy :: "world \<Rightarrow> ADeadMemoryManager \<Rightarrow> ADeadMemoryManager \<times> world" where
  "memory_destroy w mm =
     (case arena_destroy w (mm_scratch mm) of
        (scratch, w1) \<Rightarrow>
          (case pool_destroy w1 (mm_tensor_pool mm) of
             (pool, w2) \<Rightarrow> (zero_memory_manager, w2)))"

definition adead_memory_destroy ::
  "world \<Rightarrow> ADeadMemoryManager option \<Rightarrow> ADeadMemoryManager option \<times> world" where
  "adead_memory_destroy w mm =
     (case mm of
        None \<Rightarrow> (None, w)
      | Some m \<Rightarrow> (case memory_destroy w m of (m', w') \<Rightarrow> (Some m', w')))"

definition adead_memory_scratch ::
  "ADeadMemoryManager option \<Rightarrow> usize \<Rightarrow> addr \<times> ADeadMemoryManager option" where
  "adead_memory_scratch mm sz =
     (case mm of
        None \<Rightarrow> (NULL, None)
      | Some m \<Rightarrow>
          (case arena_alloc (mm_scratch m) sz ADEAD_ALIGNMENT of
             (ptr, scratch) \<Rightarrow>
               (let m1 = m\<lparr>mm_scratch := scratch\<rparr> in
                if ptr \<noteq> NULL
                then (ptr, Some (m1\<lparr>mm_total_alloc := mm_total_alloc m1 + sz,
                                    mm_alloc_count := mm_alloc_count m1 + 1\<rparr>))
                else (ptr, Some m1))))"

definition adead_memory_scratch_reset ::
  "ADeadMemoryManager option \<Rightarrow> ADeadMemoryManager option" where
  "adead_memory_scratch_reset mm =
     (case mm of
        None \<Rightarrow> None
      | Some m \<Rightarrow>
          (let m1 = m\<lparr>mm_total_freed := mm_total_freed m + arena_offset (mm_scratch m)\<rparr>;
               m2 = m1\<lparr>mm_free_count := mm_free_count m1 + 1\<rparr>
           in Some (m2\<lparr>mm_scratch := arena_reset (mm_scratch m2)\<rparr>)))"

text \<open>
  \<open>adead_memory_stats\<close> writes the counters through its four out pointers; with
  all four given it hands back the four values.
\<close>

definition adead_memory_stats ::
  "ADeadMemoryManager option \<Rightarrow> (usize \<times> usize \<times> u32 \<times> u32) option" where
  "adead_memory_stats mm =
     map_option (\<lambda>m. (mm_total_alloc m, mm_total_freed m, mm_alloc_count m, mm_free_count m)) mm"

section \<open>Runtime (runtime.h, runtime.c)\<close>

subsection \<open>Backend capability table\<close>

text \<open>
  The struct of function pointers \<open>ADeadBackendVTable\<close> is a record of functions
  on the world. The hook \<open>init\<close> writes through its \<open>void**\<close> argument: it takes
  the value the slot holds and returns the value it leaves there. The hook
  \<open>alloc\<close> may dereference its context: \<open>None\<close> is such a dereference of
  \<open>NULL\<close>, after which the C program has no defined behaviour. The hooks
  \<open>attention\<close> and \<open>layernorm\<close> of the C struct are left out: no function of
  runtime.c calls them through the table.
\<close>

record ADeadBackendVTable =
  vt_name :: string
  vt_init :: "world \<Rightarrow> addr \<Rightarrow> ADeadError \<times> addr \<times> world"
  vt_shutdown :: "world \<Rightarrow> addr \<Rightarrow> world"
  vt_alloc :: "world \<Rightarrow> addr \<Rightarrow> usize \<Rightarrow> (addr \<times> world) option"
  vt_free :: "world \<Rightarrow> addr \<Rightarrow> addr \<Rightarrow> world"
  vt_copy_h2d :: "world \<Rightarrow> addr \<Rightarrow> addr \<Rightarrow> addr \<Rightarrow> usize \<Rightarrow> world"
  vt_copy_d2h :: "world \<Rightarrow> addr \<Rightarrow> addr \<Rightarrow> addr \<Rightarrow> usize \<Rightarrow> world"
  vt_matmul :: "world \<Rightarrow> addr \<Rightarrow> addr \<Rightarrow> addr \<Rightarrow> addr \<Rightarrow> i32 \<Rightarrow> i32 \<Rightarrow> i32 \<Rightarrow> world"
  vt_add :: "world \<Rightarrow> addr \<Rightarrow> addr \<Rightarrow> addr \<Rightarrow> addr \<Rightarrow> i32 \<Rightarrow> world"
  vt_relu :: "world \<Rightarrow> addr \<Rightarrow> addr \<Rightarrow> addr \<Rightarrow> i32 \<Rightarrow> world"
  vt_softmax :: "world \<Rightarrow> addr \<Rightarrow> addr \<Rightarrow> addr \<Rightarrow> i32 \<Rightarrow> i32 \<Rightarrow> world"
  vt_sync :: "world \<Rightarrow> addr \<Rightarrow> world"
  vt_memory_available :: "world \<Rightarrow> addr \<Rightarrow> usize"
  vt_memory_used :: "world \<Rightarrow> addr \<Rightarrow> usize"

subsection \<open>The CPU backend\<close>

abbreviation (input) sizeof_CPUBackendCtx :: usize where "sizeof_CPUBackendCtx \<equiv> 16"

definition cpu_init :: "world \<Rightarrow> addr \<Rightarrow> ADeadError \<times> addr \<times> world" where
  "cpu_init w ctx_slot =
     (case malloc w sizeof_CPUBackendCtx of
        (c, w') \<Rightarrow>
          if c = NULL then (ADEAD_ERROR_OUT_OF_MEMORY, ctx_slot, w')
          else
            (ADEAD_OK, c,
             w'\<lparr>cpu_ctx_at := (cpu_ctx_at w')(c := \<lparr>ctx_allocated = 0, ctx_peak = 0\<rparr>)\<rparr>))"

definition cpu_shutdown :: "world \<Rightarrow> addr \<Rightarrow> world" where
  "cpu_shutdown w ctx = c_free w ctx"

definition cpu_alloc :: "world \<Rightarrow> addr \<Rightarrow> usize \<Rightarrow> (addr \<times> world) option" where
  "cpu_alloc w ctx sz =
     (case malloc w sz of
        (ptr, w') \<Rightarrow>
          if ptr \<noteq> NULL then
            (if ctx = NULL then None
             else
               (let c = cpu_ctx_at w' ctx;
                    c1 = c\<lparr>ctx_allocated := ctx_allocated c + sz\<rparr>;
                    c2 = (if ctx_allocated c1 > ctx_peak c1
                          then c1\<lparr>ctx_peak := ctx_allocated c1\<rparr> else c1)
                in Some (ptr, w'\<lparr>cpu_ctx_at := (cpu_ctx_at w')(ctx := c2)\<rparr>)))
          else Some (ptr, w'))"

definition cpu_free :: "world \<Rightarrow> addr \<Rightarrow> addr \<Rightarrow> world" where
  "cpu_free w ctx ptr = c_free w ptr"

definition cpu_copy_h2d :: "world \<Rightarrow> addr \<Rightarrow> addr \<Rightarrow> addr \<Rightarrow> usize \<Rightarrow> world" where
  "cpu_copy_h2d w ctx dst src sz = memcpy w dst src sz"

definition cpu_copy_d2h :: "world \<Rightarrow> addr \<Rightarrow> addr \<Rightarrow> addr \<Rightarrow> usize \<Rightarrow> world" where
  "cpu_copy_d2h w ctx dst src sz = memcpy w dst src sz"

definition cpu_matmul ::
  "world \<Rightarrow> addr \<Rightarrow> addr \<Rightarrow> addr \<Rightarrow> addr \<Rightarrow> i32 \<Rightarrow> i32 \<Rightarrow> i32 \<Rightarrow> world" where
  "cpu_matmul w ctx a b c m n k =
     w\<lparr>kernel_calls := kernel_calls w @ [MatmulCall ctx a b c m n k]\<rparr>"

definition cpu_add :: "world \<Rightarrow> addr \<Rightarrow> addr \<Rightarrow> addr \<Rightarrow> addr \<Rightarrow> i32 \<Rightarrow> world" where
  "cpu_add w ctx a b c sz = w\<lparr>kernel_calls := kernel_calls w @ [AddCall ctx a b c sz]\<rparr>"

definition cpu_relu :: "world \<Rightarrow> addr \<Rightarrow> addr \<Rightarrow> addr \<Rightarrow> i32 \<Rightarrow> world" where
  "cpu_relu w ctx inp out sz = w\<lparr>kernel_calls := kernel_calls w @ [ReluCall ctx inp out sz]\<rparr>"

definition cpu_softmax :: "world \<Rightarrow> addr \<Rightarrow> addr \<Rightarrow> addr \<Rightarrow> i32 \<Rightarrow> i32 \<Rightarrow> world" where
  "cpu_softmax w ctx inp out rows cols =
     w\<lparr>kernel_calls := kernel_calls w @ [SoftmaxCall ctx inp out rows cols]\<rparr>"

definition cpu_sync :: "world \<Rightarrow> addr \<Rightarrow> world" where
  "cpu_sync w ctx = w"

definition cpu_memory_available :: "world \<Rightarrow> addr \<Rightarrow> usize" where
  "cpu_memory_available w ctx = 16 * 1024 * 1024 * 1024"

definition cpu_memory_used :: "world \<Rightarrow> addr \<Rightarrow> usize" where
  "cpu_memory_used w ctx = (if ctx \<noteq> NULL then ctx_allocated (cpu_ctx_at w ctx) else 0)"

definition cpu_vtable :: ADeadBackendVTable where
  "cpu_vtable =
     \<lparr>vt_name = ''CPU'',
      vt_init = cpu_init,
      vt_shutdown = cpu_shutdown,
      vt_alloc = cpu_alloc,
      vt_free = cpu_free,
      vt_copy_h2d = cpu_copy_h2d,
      vt_copy_d2h = cpu_copy_d2h,
      vt_matmul = cpu_matmul,
      vt_add = cpu_add,
      vt_relu = cpu_relu,
      vt_softmax = cpu_softmax,
      vt_sync = cpu_sync,
      vt_memory_available = cpu_memory_available,
      vt_memory_used = cpu_memory_used\<rparr>"

subsection \<open>Runtime context\<close>

text \<open>
  \<open>rt_backend_vtable\<close> is the pointer to the table: \<open>None\<close> is \<open>NULL\<close>.
  A call through a \<open>NULL\<close> table has no defined behaviour in C; the operations
  that make such a call return an option, and \<open>None\<close> stands for it.
\<close>

record ADeadRuntime =
  rt_memory :: ADeadMemoryManager
  rt_active_backend :: ADeadBackend
  rt_backend_vtable :: "ADeadBackendVTable option"
  rt_backend_ctx :: addr
  rt_flags :: u32
  rt_initialized :: int

definition zero_runtime :: ADeadRuntime where
  "zero_runtime =
     \<lparr>rt_memory = zero_memory_manager, rt_active_backend = 0, rt_backend_vtable = None,
      rt_backend_ctx = NULL, rt_flags = 0, rt_initialized = 0\<rparr>"

text \<open>
  The \<open>switch\<close> of \<open>adead_init\<close>: the table and the tag each case installs;
  \<open>None\<close> is the \<open>default\<close> case.
\<close>

definition select_backend :: "ADeadBackend \<Rightarrow> (ADeadBackendVTable \<times> ADeadBackend) option" where
  "select_backend backend =
     (if backend = ADEAD_BACKEND_CPU \<or> backend = ADEAD_BACKEND_AUTO
      then Some (cpu_vtable, ADEAD_BACKEND_CPU)
      else if backend = ADEAD_BACKEND_CUDA then Some (cpu_vtable, ADEAD_BACKEND_CPU)
      else if backend = ADEAD_BACKEND_VULKAN then Some (cpu_vtable, ADEAD_BACKEND_CPU)
      else None)"

definition adead_init ::
  "world \<Rightarrow> ADeadRuntime option \<Rightarrow> ADeadBackend \<Rightarrow> ADeadError \<times> ADeadRuntime option \<times> world" where
  "adead_init w rt backend =
     (case rt of
        None \<Rightarrow> (ADEAD_ERROR_INVALID_PARAM, None, w)
      | Some _ \<Rightarrow>
          (case memory_init w (64 * 1024 * 1024) (16 * 1024 * 1024) of
             (err, mm, w1) \<Rightarrow>
               (let rt1 = zero_runtime\<lparr>rt_memory := mm\<rparr> in
                if err \<noteq> ADEAD_OK then (err, Some rt1, w1)
                else
                  (case select_backend backend of
                     None \<Rightarrow>
                       (case memory_destroy w1 (rt_memory rt1) of
                          (mm', w2) \<Rightarrow>
                            (ADEAD_ERROR_INVALID_PARAM, Some (rt1\<lparr>rt_memory := mm'\<rparr>), w2))
                   | Some (vt, active) \<Rightarrow>
                       (let rt2 = rt1\<lparr>rt_backend_vtable := Some vt,
                                      rt_active_backend := active\<rparr>
                        in case vt_init vt w1 (rt_backend_ctx rt2) of
                             (err2, ctx, w2) \<Rightarrow>
                               (let rt3 = rt2\<lparr>rt_backend_ctx := ctx\<rparr> in
                                if err2 \<noteq> ADEAD_OK
                                then (case memory_destroy w2 (rt_memory rt3) of
                                        (mm', w3) \<Rightarrow>
                                          (err2, Some (rt3\<lparr>rt_memory := mm'\<rparr>), w3))
                                else (ADEAD_OK, Some (rt3\<lparr>rt_initialized := 1\<rparr>), w2)))))))"

definition adead_init_auto ::
  "world \<Rightarrow> ADeadRuntime option \<Rightarrow> ADeadError \<times> ADeadRuntime option \<times> world" where
  "adead_init_auto w rt = adead_init w rt ADEAD_BACKEND_AUTO"

definition adead_shutdown :: "world \<Rightarrow> ADeadRuntime option \<Rightarrow> ADeadRuntime option \<times> world" where
  "adead_shutdown w rt =
     (case rt of
        None \<Rightarrow> (None, w)
      | Some r \<Rightarrow>
          if rt_initialized r = 0 then (Some r, w)
          else
            (let w1 = (case rt_backend_vtable r of
                         None \<Rightarrow> w
                       | Some vt \<Rightarrow>
                           if rt_backend_ctx r \<noteq> NULL
                           then vt_shutdown vt w (rt_backend_ctx r) else w)
             in case memory_destroy w1 (rt_memory r) of
                  (mm', w2) \<Rightarrow> (Some zero_runtime, w2)))"

definition adead_get_backend :: "ADeadRuntime option \<Rightarrow> ADeadBackend" where
  "adead_get_backend rt =
     (case rt of None \<Rightarrow> ADEAD_BACKEND_CPU | Some r \<Rightarrow> rt_active_backend r)"

definition adead_get_backend_name :: "ADeadRuntime option \<Rightarrow> string" where
  "adead_get_backend_name rt =
     (case rt of
        None \<Rightarrow> ''Unknown''
      | Some r \<Rightarrow>
          (case rt_backend_vtable r of None \<Rightarrow> ''Unknown'' | Some vt \<Rightarrow> vt_name vt))"

subsection \<open>Tensors\<close>

text \<open>
  The arrays \<open>shape\<close> and \<open>strides\<close> of the descriptor have
  \<open>ADEAD_MAX_DIMS\<close> slots: they are lists of that length.
\<close>

record ADeadTensor =
  tensor_data :: addr
  tensor_shape :: "u64 list"
  tensor_strides :: "u64 list"
  tensor_ndim :: u32
  tensor_dtype :: ADeadDType
  tensor_device :: ADeadBackend
  tensor_size_bytes :: u64

definition zero_tensor :: ADeadTensor where
  "zero_tensor =
     \<lparr>tensor_data = NULL, tensor_shape = replicate ADEAD_MAX_DIMS 0,
      tensor_strides = replicate ADEAD_MAX_DIMS 0, tensor_ndim = 0, tensor_dtype = 0,
      tensor_device = 0, tensor_size_bytes = 0\<rparr>"

text \<open>
  \<open>adead_tensor_numel\<close> reads \<open>shape[i]\<close> for every \<open>i\<close> below \<open>ndim\<close>; a
  read past the end of the array is answered by \<open>None\<close>.
\<close>

definition adead_tensor_numel :: "ADeadTensor \<Rightarrow> u64 option" where
  "adead_tensor_numel t =
     (if unat (tensor_ndim t) \<le> length (tensor_shape t)
      then Some (fold (\<lambda>i n. n * tensor_shape t ! i) [0..<unat (tensor_ndim t)] 1)
      else None)"

text \<open>
  The two loops of \<open>adead_tensor_create\<close>. The first copies the caller's shape
  into the descriptor and multiplies the element count up; the second runs \<open>i\<close>
  from \<open>ndim - 2\<close> down to 0.
\<close>

definition copy_shape :: "u64 list \<Rightarrow> nat \<Rightarrow> u64 list \<Rightarrow> u64 list \<times> u64" where
  "copy_shape shp ndim shape_arr =
     fold (\<lambda>i (sa, numel). (sa[i := shp ! i], numel * shp ! i)) [0..<ndim] (shape_arr, 1)"

definition row_major_strides :: "u64 list \<Rightarrow> nat \<Rightarrow> u64 list \<Rightarrow> u64 list" where
  "row_major_strides shp ndim strides_arr =
     fold (\<lambda>i st. st[i := st ! (i + 1) * shp ! (i + 1)]) (rev [0..<ndim - 1]) strides_arr"

text \<open>
  The caller's \<open>shape\<close> pointer is an option of the array it points to. The code
  reads \<open>ndim\<close> entries of it: on a shorter array that is a read out of bounds
  (\<open>None\<close>).
\<close>

definition adead_tensor_create ::
  "world \<Rightarrow> ADeadRuntime option \<Rightarrow> ADeadTensor option \<Rightarrow> u64 list option \<Rightarrow> u32 \<Rightarrow> ADeadDType
     \<Rightarrow> (ADeadError \<times> ADeadTensor option \<times> world) option" where
  "adead_tensor_create w rt tensor shape_ptr ndim dtype =
     (case (rt, tensor, shape_ptr) of
        (Some r, Some _, Some shp) \<Rightarrow>
          if ndim = 0 \<or> unat ndim > ADEAD_MAX_DIMS
          then Some (ADEAD_ERROR_INVALID_PARAM, tensor, w)
          else if length shp < unat ndim then None
          else
            (case copy_shape shp (unat ndim) (tensor_shape zero_tensor) of
               (shape_arr, numel) \<Rightarrow>
                 (let elem_size = adead_dtype_size dtype;
                      strides0 = (tensor_strides zero_tensor)[unat ndim - 1 := ucast elem_size];
                      strides1 = row_major_strides shp (unat ndim) strides0;
                      t1 = zero_tensor\<lparr>tensor_shape := shape_arr, tensor_strides := strides1,
                                       tensor_ndim := ndim, tensor_dtype := dtype,
                                       tensor_device := rt_active_backend r,
                                       tensor_size_bytes := numel * ucast elem_size\<rparr>
                  in case rt_backend_vtable r of
                       None \<Rightarrow> None
                     | Some vt \<Rightarrow>
                         (case vt_alloc vt w (rt_backend_ctx r) (tensor_size_bytes t1) of
                            None \<Rightarrow> None
                          | Some (p, w') \<Rightarrow>
                              if p = NULL
                              then Some (ADEAD_ERROR_OUT_OF_MEMORY,
                                         Some (t1\<lparr>tensor_data := p\<rparr>), w')
                              else Some (ADEAD_OK, Some (t1\<lparr>tensor_data := p\<rparr>), w'))))
      | _ \<Rightarrow> Some (ADEAD_ERROR_INVALID_PARAM, tensor, w))"

definition adead_tensor_destroy ::
  "world \<Rightarrow> ADeadRuntime option \<Rightarrow> ADeadTensor option \<Rightarrow> (ADeadTensor option \<times> world) option" where
  "adead_tensor_destroy w rt tensor =
     (case (rt, tensor) of
        (Some r, Some t) \<Rightarrow>
          if tensor_data t = NULL then Some (tensor, w)
          else
            (case rt_backend_vtable r of
               None \<Rightarrow> None
             | Some vt \<Rightarrow>
                 Some (Some zero_tensor, vt_free vt w (rt_backend_ctx r) (tensor_data t)))
      | _ \<Rightarrow> Some (tensor, w))"

definition adead_tensor_copy_from ::
  "world \<Rightarrow> ADeadRuntime option \<Rightarrow> ADeadTensor option \<Rightarrow> addr \<Rightarrow> usize
     \<Rightarrow> (ADeadError \<times> world) option" where
  "adead_tensor_copy_from w rt tensor data_ptr sz =
     (case (rt, tensor) of
        (Some r, Some t) \<Rightarrow>
          if data_ptr = NULL then Some (ADEAD_ERROR_INVALID_PARAM, w)
          else
            (let sz1 = (if sz > tensor_size_bytes t then tensor_size_bytes t else sz)
             in case rt_backend_vtable r of
                  None \<Rightarrow> None
                | Some vt \<Rightarrow>
                    Some (ADEAD_OK,
                          vt_copy_h2d vt w (rt_backend_ctx r) (tensor_data t) data_ptr sz1))
      | _ \<Rightarrow> Some (ADEAD_ERROR_INVALID_PARAM, w))"

definition adead_tensor_copy_to ::
  "world \<Rightarrow> ADeadRuntime option \<Rightarrow> ADeadTensor option \<Rightarrow> addr \<Rightarrow> usize
     \<Rightarrow> (ADeadError \<times> world) option" where
  "adead_tensor_copy_to w rt tensor data_ptr sz =
     (case (rt, tensor) of
        (Some r, Some t) \<Rightarrow>
          if data_ptr = NULL then Some (ADEAD_ERROR_INVALID_PARAM, w)
          else
            (let sz1 = (if sz > tensor_size_bytes t then tensor_size_bytes t else sz)
             in case rt_backend_vtable r of
                  None \<Rightarrow> None
                | Some vt \<Rightarrow>
                    Some (ADEAD_OK,
                          vt_copy_d2h vt w (rt_backend_ctx r) data_ptr (tensor_data t) sz1))
      | _ \<Rightarrow> Some (ADEAD_ERROR_INVALID_PARAM, w))"

subsection \<open>Operations\<close>

text \<open>The casts \<open>(i32)\<close> of a \<open>u64\<close> keep the low 32 bits.\<close>

definition adead_matmul ::
  "world \<Rightarrow> ADeadRuntime option \<Rightarrow> ADeadTensor option \<Rightarrow> ADeadTensor option
     \<Rightarrow> ADeadTensor option \<Rightarrow> (ADeadError \<times> world) option" where
  "adead_matmul w rt a b c =
     (case (rt, a, b, c) of
        (Some r, Some ta, Some tb, Some tc) \<Rightarrow>
          (let m = (ucast (tensor_shape ta ! 0) :: i32);
               k = (ucast (tensor_shape ta ! 1) :: i32);
               n = (ucast (tensor_shape tb ! 1) :: i32)
           in case rt_backend_vtable r of
                None \<Rightarrow> None
              | Some vt \<Rightarrow>
                  Some (ADEAD_OK,
                        vt_matmul vt w (rt_backend_ctx r) (tensor_data ta) (tensor_data tb)
                          (tensor_data tc) m n k))
      | _ \<Rightarrow> Some (ADEAD_ERROR_INVALID_PARAM, w))"

definition adead_add ::
  "world \<Rightarrow> ADeadRuntime option \<Rightarrow> ADeadTensor option \<Rightarrow> ADeadTensor option
     \<Rightarrow> ADeadTensor option \<Rightarrow> (ADeadError \<times> world) option" where
  "adead_add w rt a b c =
     (case (rt, a, b, c) of
        (Some r, Some ta, Some tb, Some tc) \<Rightarrow>
          (case adead_tensor_numel ta of
             None \<Rightarrow> None
           | Some numel \<Rightarrow>
               (let sz = (ucast numel :: i32)
                in case rt_backend_vtable r of
                     None \<Rightarrow> None
                   | Some vt \<Rightarrow>
                       Some (ADEAD_OK,
                             vt_add vt w (rt_backend_ctx r) (tensor_data ta) (tensor_data tb)
                               (tensor_data tc) sz)))
      | _ \<Rightarrow> Some (ADEAD_ERROR_INVALID_PARAM, w))"

definition adead_relu ::
  "world \<Rightarrow> ADeadRuntime option \<Rightarrow> ADeadTensor option \<Rightarrow> ADeadTensor option
     \<Rightarrow> (ADeadError \<times> world) option" where
  "adead_relu w rt inp out =
     (case (rt, inp, out) of
        (Some r, Some tin, Some tout) \<Rightarrow>
          (case adead_tensor_numel tin of
             None \<Rightarrow> None
           | Some numel \<Rightarrow>
               (let sz = (ucast numel :: i32)
                in case rt_backend_vtable r of
                     None \<Rightarrow> None
                   | Some vt \<Rightarrow>
                       Some (ADEAD_OK,
                             vt_relu vt w (rt_backend_ctx r) (tensor_data tin)
                               (tensor_data tout) sz)))
      | _ \<Rightarrow> Some (ADEAD_ERROR_INVALID_PARAM, w))"

definition adead_softmax ::
  "world \<Rightarrow> ADeadRuntime option \<Rightarrow> ADeadTensor option \<Rightarrow> ADeadTensor option
     \<Rightarrow> (ADeadError \<times> world) option" where
  "adead_softmax w rt inp out =
     (case (rt, inp, out) of
        (Some r, Some tin, Some tout) \<Rightarrow>
          (let rows = (ucast (tensor_shape tin ! 0) :: i32);
               cols = (ucast (tensor_shape tin ! 1) :: i32)
           in case rt_backend_vtable r of
                None \<Rightarrow> None
              | Some vt \<Rightarrow>
                  Some (ADEAD_OK,
                        vt_softmax vt w (rt_backend_ctx r) (tensor_data tin)
                          (tensor_data tout) rows cols))
      | _ \<Rightarrow> Some (ADEAD_ERROR_INVALID_PARAM, w))"

definition adead_sync :: "world \<Rightarrow> ADeadRuntime option \<Rightarrow> world" where
  "adead_sync w rt =
     (case rt of
        None \<Rightarrow> w
      | Some r \<Rightarrow>
          (case rt_backend_vtable r of
             None \<Rightarrow> w
           | Some vt \<Rightarrow> vt_sync vt w (rt_backend_ctx r)))"

definition adead_memory_available :: "world \<Rightarrow> ADeadRuntime option \<Rightarrow> usize" where
  "adead_memory_available w rt =
     (case rt of
        None \<Rightarrow> 0
      | Some r \<Rightarrow>
          (case rt_backend_vtable r of
             None \<Rightarrow> 0
           | Some vt \<Rightarrow> vt_memory_available vt w (rt_backend_ctx r)))"

definition adead_memory_used :: "world \<Rightarrow> ADeadRuntime option \<Rightarrow> usize" where
  "adead_memory_used w rt =
     (case rt of
        None \<Rightarrow> 0
      | Some r \<Rightarrow>
          (case rt_backend_vtable r of
             None \<Rightarrow> 0
           | Some vt \<Rightarrow> vt_memory_used vt w (rt_backend_ctx r)))"

section \<open>Drivers and fixtures\<close>

text \<open>\<open>n\<close> calls of \<open>adead_pool_alloc\<close> in a row, with the pointers they return.\<close>

fun pool_alloc_times :: "nat \<Rightarrow> world \<Rightarrow> ADeadPool option \<Rightarrow> addr list \<times> ADeadPool option" where
  "pool_alloc_times 0 w pool = ([], pool)"
| "pool_alloc_times (Suc n) w pool =
     (case adead_pool_alloc w pool of
        (ptr, pool') \<Rightarrow>
          (case pool_alloc_times n w pool' of (ptrs, pool'') \<Rightarrow> (ptr # ptrs, pool'')))"

text \<open>
  A world with nothing allocated, memory all zero and no kernel called, in which
  \<open>malloc\<close> will answer as the script says.
\<close>

definition empty_world :: "addr list \<Rightarrow> world" where
  "empty_world script =
     \<lparr>malloc_script = script, live_blocks = {#}, block_next = (\<lambda>_. NULL),
      cpu_ctx_at = (\<lambda>_. \<lparr>ctx_allocated = 0, ctx_peak = 0\<rparr>), bytes = (\<lambda>_. 0),
      kernel_calls = []\<rparr>"

text \<open>A 2 by 2 tensor of \<open>float\<close> with its data at the given address.\<close>

definition matrix_2x2 :: "addr \<Rightarrow> ADeadTensor" where
  "matrix_2x2 p =
     \<lparr>tensor_data = p, tensor_shape = [2, 2, 0, 0, 0, 0, 0, 0],
      tensor_strides = [8, 4, 0, 0, 0, 0, 0, 0], tensor_ndim = 2,
      tensor_dtype = ADEAD_DTYPE_F32, tensor_device = ADEAD_BACKEND_CPU,
      tensor_size_bytes = 16\<rparr>"

text \<open>
  A world whose memory holds at every address the low byte of the address, so that
  the bytes of two buffers differ.
\<close>

definition address_pattern_world :: world where
  "address_pattern_world = (empty_world [])\<lparr>bytes := (\<lambda>x. ucast x)\<rparr>"

text \<open>The byte at an address in the world a copy operation returns.\<close>

definition byte_after :: "(ADeadError \<times> world) option \<Rightarrow> addr \<Rightarrow> u8 option" where
  "byte_after res x = map_option (\<lambda>(e, w). bytes w x) res"

section \<open>The row-major layout, in natural numbers\<close>

text \<open>
  The layout the specification describes, on unbounded numbers: the stride of
  dimension \<open>i\<close> of a contiguous row-major array is the element size times the
  extents of the dimensions after \<open>i\<close>. A request fits when none of the numbers
  the layout needs, that is every stride, the element count and the byte size,
  reaches \<open>2 ^ 64\<close>.
\<close>

definition row_major_stride :: "nat \<Rightarrow> nat list \<Rightarrow> nat \<Rightarrow> nat" where
  "row_major_stride elem_size dims i = elem_size * prod_list (drop (Suc i) dims)"

definition layout_fits :: "nat \<Rightarrow> nat list \<Rightarrow> bool" where
  "layout_fits elem_size dims =
     (list_all (\<lambda>i. row_major_stride elem_size dims i < 2 ^ 64) [0..<length dims]
      \<and> prod_list dims < 2 ^ 64 \<and> prod_list dims * elem_size < 2 ^ 64)"

section \<open>Auxiliary facts\<close>

subsection \<open>malloc and the init functions\<close>

lemma malloc_live:
  "malloc w n = (p, w') \<Longrightarrow>
     live_blocks w' = (if p = NULL then live_blocks w else add_mset p (live_blocks w))"
  by (auto simp: malloc_def split: list.splits)

lemma arena_init_cases:
  assumes "arena_init w a c = (e, a', w')"
  shows "(e = ADEAD_OK \<and> arena_base a' \<noteq> NULL \<and> live_blocks w' = add_mset (arena_base a') (live_blocks w))
       \<or> (e = ADEAD_ERROR_OUT_OF_MEMORY \<and> c \<noteq> 0 \<and> a' = a\<lparr>arena_base := NULL\<rparr> \<and> live_blocks w' = live_blocks w)
       \<or> (e = ADEAD_ERROR_INVALID_PARAM \<and> c = 0 \<and> a' = a \<and> w' = w)"
  using assms
  by (auto simp: arena_init_def dest!: malloc_live split: prod.splits if_splits)

lemma pool_init_cases:
  assumes "pool_init w p bs nb = (e, p', w')"
  shows "(e = ADEAD_OK \<and> pool_base p' \<noteq> NULL \<and> live_blocks w' = add_mset (pool_base p') (live_blocks w))
       \<or> (e = ADEAD_ERROR_OUT_OF_MEMORY \<and> p' = p\<lparr>pool_base := NULL\<rparr> \<and> live_blocks w' = live_blocks w)
       \<or> (e = ADEAD_ERROR_INVALID_PARAM \<and> p' = p \<and> w' = w)"
  using assms
  by (auto simp: pool_init_def Let_def dest!: malloc_live split: prod.splits if_splits)

lemma memory_init_cases:
  assumes "memory_init w ss ps = (e, mm, w')"
  shows "(e = ADEAD_OK \<and> arena_base (mm_scratch mm) \<noteq> NULL \<and> pool_base (mm_tensor_pool mm) \<noteq> NULL
          \<and> live_blocks w' = add_mset (pool_base (mm_tensor_pool mm)) (add_mset (arena_base (mm_scratch mm)) (live_blocks w)))
       \<or> (e \<noteq> ADEAD_OK \<and> mm = zero_memory_manager \<and> live_blocks w' = live_blocks w)"
proof -
  obtain e1 a1 w1 where ai: "arena_init w zero_arena ss = (e1, a1, w1)"
    by (metis prod_cases3)
  obtain e2 p2 w2 where pi: "pool_init w1 zero_pool 256 (ps div 256) = (e2, p2, w2)"
    by (metis prod_cases3)
  note ca = arena_init_cases[OF ai] and cp = pool_init_cases[OF pi]
  show ?thesis
  proof (cases "e1 = ADEAD_OK")
    case False
    with ca assms ai show ?thesis
      by (auto simp: memory_init_def zero_memory_manager_def zero_arena_def Let_def)
  next
    case e1: True
    show ?thesis
    proof (cases "e2 = ADEAD_OK")
      case True
      with e1 ca cp assms ai pi show ?thesis
        by (auto simp: memory_init_def zero_memory_manager_def Let_def)
    next
      case False
      with e1 ca cp assms ai pi show ?thesis
        by (auto simp: memory_init_def zero_memory_manager_def zero_arena_def zero_pool_def
            arena_destroy_def c_free_def Let_def)
    qed
  qed
qed

lemma memory_destroy_live:
  assumes "arena_base (mm_scratch mm) \<noteq> NULL" "pool_base (mm_tensor_pool mm) \<noteq> NULL"
  shows "memory_destroy w mm = (zero_memory_manager,
            w\<lparr>live_blocks := live_blocks w - {#arena_base (mm_scratch mm)#} - {#pool_base (mm_tensor_pool mm)#}\<rparr>)"
  using assms by (simp add: memory_destroy_def arena_destroy_def pool_destroy_def c_free_def)

lemma cpu_init_cases:
  assumes "cpu_init w slot = (e, ctx, w')"
  shows "(e = ADEAD_OK \<and> ctx \<noteq> NULL \<and> live_blocks w' = add_mset ctx (live_blocks w))
       \<or> (e = ADEAD_ERROR_OUT_OF_MEMORY \<and> ctx = slot \<and> live_blocks w' = live_blocks w)"
  using assms
  by (auto simp: cpu_init_def dest!: malloc_live split: prod.splits if_splits)

lemma select_backend_cases:
  "select_backend b = (if b \<in> {0, 1, 2, 255} then Some (cpu_vtable, 0) else None)"
  by (simp add: select_backend_def)

lemma adead_init_cases:
  assumes "adead_init w (Some rt0) backend = (e, rt, w')"
  shows "(e = ADEAD_OK \<and> backend \<in> {0, 1, 2, 255}
           \<and> (\<exists>r. rt = Some r \<and> rt_initialized r = 1 \<and> rt_backend_vtable r = Some cpu_vtable
                 \<and> rt_active_backend r = ADEAD_BACKEND_CPU \<and> rt_backend_ctx r \<noteq> NULL
                 \<and> arena_base (mm_scratch (rt_memory r)) \<noteq> NULL
                 \<and> pool_base (mm_tensor_pool (rt_memory r)) \<noteq> NULL))
       \<or> (e = ADEAD_ERROR_OUT_OF_MEMORY
           \<and> (\<exists>r. rt = Some r \<and> rt_initialized r = 0 \<and> rt_memory r = zero_memory_manager)
           \<and> live_blocks w' = live_blocks w)
       \<or> (e = ADEAD_ERROR_INVALID_PARAM \<and> backend \<notin> {0, 1, 2, 255}
           \<and> (\<exists>r. rt = Some r \<and> rt_initialized r = 0 \<and> rt_memory r = zero_memory_manager)
           \<and> live_blocks w' = live_blocks w)"
proof -
  obtain e1 mm w1 where mi: "memory_init w (64 * 1024 * 1024) (16 * 1024 * 1024) = (e1, mm, w1)"
    by (metis prod_cases3)
  note cm = memory_init_cases[OF mi]
  show ?thesis
  proof (cases "e1 = ADEAD_OK")
    case False
    have "e1 \<noteq> ADEAD_ERROR_INVALID_PARAM"
      using mi
      by (auto simp: memory_init_def arena_init_def pool_init_def Let_def split: prod.splits if_splits)
    moreover have "e1 = ADEAD_ERROR_OUT_OF_MEMORY \<or> e1 = ADEAD_ERROR_INVALID_PARAM"
      using mi False
      by (auto simp: memory_init_def arena_init_def pool_init_def Let_def split: prod.splits if_splits)
    ultimately show ?thesis
      using False cm assms mi by (auto simp: adead_init_def zero_runtime_def Let_def)
  next
    case e1: True
    with cm have bases: "arena_base (mm_scratch mm) \<noteq> NULL" "pool_base (mm_tensor_pool mm) \<noteq> NULL"
      and l1: "live_blocks w1 = add_mset (pool_base (mm_tensor_pool mm))
                 (add_mset (arena_base (mm_scratch mm)) (live_blocks w))"
      by auto
    show ?thesis
    proof (cases "backend \<in> {0, 1, 2, 255}")
      case False
      then show ?thesis
        using e1 assms mi l1
        by (auto simp: adead_init_def zero_runtime_def Let_def select_backend_cases
            memory_destroy_live[OF bases])
    next
      case True
      obtain e2 ctx w2 where ci: "cpu_init w1 NULL = (e2, ctx, w2)"
        by (metis prod_cases3)
      note cc = cpu_init_cases[OF ci]
      have vi: "vt_init cpu_vtable = cpu_init" by (simp add: cpu_vtable_def)
      from True have sb: "select_backend backend = Some (cpu_vtable, 0)"
        by (simp add: select_backend_cases)
      show ?thesis
      proof (cases "e2 = ADEAD_OK")
        case True
        with cc e1 assms mi ci sb vi bases \<open>backend \<in> {0, 1, 2, 255}\<close> show ?thesis
          by (auto simp: adead_init_def zero_runtime_def Let_def)
      next
        case False
        with cc have e2: "e2 = ADEAD_ERROR_OUT_OF_MEMORY" and l2: "live_blocks w2 = live_blocks w1"
          by auto
        show ?thesis
          using False e2 l2 l1 e1 assms mi ci sb vi
          by (auto simp: adead_init_def zero_runtime_def Let_def memory_destroy_live[OF bases])
      qed
    qed
  qed
qed

lemma adead_init_succeeds:
  assumes "malloc_script w = p1 # p2 # p3 # rest" "p1 \<noteq> NULL" "p2 \<noteq> NULL" "p3 \<noteq> NULL"
    and "b \<in> {0, 1, 2, 255}"
  shows "fst (adead_init w (Some rt0) b) = ADEAD_OK"
proof -
  from assms(5) have sb: "select_backend b = Some (cpu_vtable, 0)"
    by (simp add: select_backend_cases)
  show ?thesis
    using assms(1-4)
    by (simp add: adead_init_def memory_init_def arena_init_def pool_init_def malloc_def
        sb cpu_vtable_def cpu_init_def Let_def split_beta
        zero_memory_manager_def zero_runtime_def zero_arena_def zero_pool_def)
qed

lemma memory_init_ok:
  assumes "memory_init w ss ps = (ADEAD_OK, mm, w')"
  shows "mm_total_alloc mm = 0 \<and> mm_total_freed mm = 0 \<and> mm_alloc_count mm = 0
     \<and> mm_free_count mm = 0 \<and> arena_offset (mm_scratch mm) = 0
     \<and> arena_peak (mm_scratch mm) = 0 \<and> arena_capacity (mm_scratch mm) = ss
     \<and> arena_base (mm_scratch mm) \<noteq> NULL"
  using assms
  by (auto simp add: memory_init_def arena_init_def zero_memory_manager_def zero_arena_def Let_def
      split: prod.splits if_splits)

subsection \<open>The pool of four blocks of 256 bytes\<close>

lemma upt_0_4: "[0..<4] = [0,1,2,3]"
  by (simp add: upt_conv_Cons)

lemma thread_free_list_4: "thread_free_list base 256 4 nxt =
   (base + 768, nxt(base := NULL, base + 256 := base, base + 512 := base + 256, base + 768 := base + 512))"
  by (simp add: thread_free_list_def upt_0_4 Let_def)

lemma nonnull_blocks:
  fixes base :: addr
  assumes "base \<noteq> NULL" "unat base + 1024 < 2 ^ 64"
  shows "base + 256 \<noteq> NULL \<and> base + 512 \<noteq> NULL \<and> base + 768 \<noteq> NULL"
proof -
  have "unat (base + 256) = unat base + 256" "unat (base + 512) = unat base + 512"
       "unat (base + 768) = unat base + 768"
    using assms by (simp_all add: unat_word_ariths)
  then show ?thesis by (metis add_is_0 unat_0 zero_neq_numeral)
qed

lemma pool_init_256_4:
  assumes "malloc_script w = base # rest" "base \<noteq> NULL"
  shows "adead_pool_init w (Some pool) 256 4 =
    (ADEAD_OK,
     Some \<lparr>pool_base = base, pool_free_list = base + 768, pool_block_size = 256, pool_capacity = 4, pool_used = 0\<rparr>,
     w\<lparr>malloc_script := rest, live_blocks := add_mset base (live_blocks w),
       block_next := (block_next w)(base := NULL, base + 256 := base, base + 512 := base + 256, base + 768 := base + 512)\<rparr>)"
  using assms
  by (simp add: adead_pool_init_def pool_init_def malloc_def adead_align_up_def thread_free_list_4 Let_def)

lemma pool_free_then_alloc:
  assumes "ptr \<noteq> NULL" "pool_base P \<le> ptr" "ptr < pool_base P + pool_block_size P * pool_capacity P"
    and "adead_pool_free w (Some P) ptr = (p', w')"
  shows "adead_pool_alloc w' p' =
           (ptr, Some (P\<lparr>pool_free_list := pool_free_list P, pool_used := pool_used P - 1 + 1\<rparr>))"
proof -
  have c: "\<not> ptr < pool_base P" "\<not> pool_base P + pool_block_size P * pool_capacity P \<le> ptr"
    using assms(2,3) by auto
  show ?thesis
    using assms(1,4) c
    by (auto simp add: adead_pool_free_def pool_free_def adead_pool_alloc_def pool_alloc_def Let_def)
qed

subsection \<open>The loops of tensor creation\<close>

lemma copy_shape_props:
  assumes "n \<le> length sa"
  shows "length (fst (copy_shape shp n sa)) = length sa
       \<and> (\<forall>i<n. fst (copy_shape shp n sa) ! i = shp ! i)
       \<and> (\<forall>i. n \<le> i \<longrightarrow> fst (copy_shape shp n sa) ! i = sa ! i)
       \<and> snd (copy_shape shp n sa) = fold (\<lambda>i m. m * shp ! i) [0..<n] 1"
  using assms
proof (induction n)
  case 0
  then show ?case by (simp add: copy_shape_def)
next
  case (Suc n)
  then have ih: "length (fst (copy_shape shp n sa)) = length sa"
    "\<forall>i<n. fst (copy_shape shp n sa) ! i = shp ! i"
    "\<forall>i. n \<le> i \<longrightarrow> fst (copy_shape shp n sa) ! i = sa ! i"
    "snd (copy_shape shp n sa) = fold (\<lambda>i m. m * shp ! i) [0..<n] 1"
    by simp_all
  have step: "copy_shape shp (Suc n) sa =
      ((fst (copy_shape shp n sa))[n := shp ! n], snd (copy_shape shp n sa) * shp ! n)"
    by (simp add: copy_shape_def split_beta)
  from Suc.prems have "n < length sa" by simp
  with ih show ?case
    by (auto simp: step nth_list_update less_Suc_eq)
qed

lemma row_major_strides_props:
  assumes "k < length st"
  shows "length (fold (\<lambda>i st. st[i := st ! (i + 1) * shp ! (i + 1)]) (rev [0..<k]) st) = length st
       \<and> (\<forall>j. k \<le> j \<longrightarrow> fold (\<lambda>i st. st[i := st ! (i + 1) * shp ! (i + 1)]) (rev [0..<k]) st ! j = st ! j)
       \<and> (\<forall>i<k. fold (\<lambda>i st. st[i := st ! (i + 1) * shp ! (i + 1)]) (rev [0..<k]) st ! i
                = fold (\<lambda>i st. st[i := st ! (i + 1) * shp ! (i + 1)]) (rev [0..<k]) st ! (i + 1) * shp ! (i + 1))"
  using assms
proof (induction k arbitrary: st)
  case 0
  then show ?case by simp
next
  case (Suc k)
  let ?f = "\<lambda>i st. st[i := st ! (i + 1) * shp ! (i + 1)]"
  let ?st' = "st[k := st ! (k + 1) * shp ! (k + 1)]"
  let ?r = "fold ?f (rev [0..<k]) ?st'"
  have unfold: "fold ?f (rev [0..<Suc k]) st = ?r" by simp
  from Suc.prems have k: "k < length ?st'" by simp
  from Suc.IH[OF k] have len: "length ?r = length st"
    and above: "\<And>j. k \<le> j \<Longrightarrow> ?r ! j = ?st' ! j"
    and below: "\<And>i. i < k \<Longrightarrow> ?r ! i = ?r ! (i + 1) * shp ! (i + 1)"
    by simp_all
  have a: "\<forall>j. Suc k \<le> j \<longrightarrow> ?r ! j = st ! j"
    using above by simp
  have rk: "?r ! k = st ! (k + 1) * shp ! (k + 1)"
    using above[of k] Suc.prems by simp
  have rk1: "?r ! (k + 1) = st ! (k + 1)"
    using above[of "k + 1"] by simp
  have b: "\<forall>i<Suc k. ?r ! i = ?r ! (i + 1) * shp ! (i + 1)"
    using below rk rk1 by (auto simp: less_Suc_eq)
  show ?case
    unfolding unfold using len a b by blast
qed

lemma tensor_create_ok:
  assumes "adead_tensor_create w rt t0 (Some shp) ndim dtype = Some (ADEAD_OK, Some t, w')"
  shows "0 < unat ndim \<and> unat ndim \<le> 8 \<and> unat ndim \<le> length shp
       \<and> tensor_shape t = fst (copy_shape shp (unat ndim) (replicate 8 0))
       \<and> tensor_strides t = row_major_strides shp (unat ndim)
                               ((replicate 8 0)[unat ndim - 1 := ucast (adead_dtype_size dtype)])
       \<and> tensor_ndim t = ndim \<and> tensor_dtype t = dtype
       \<and> tensor_size_bytes t = snd (copy_shape shp (unat ndim) (replicate 8 0))
                                   * ucast (adead_dtype_size dtype)
       \<and> tensor_data t \<noteq> NULL"
  using assms
  by (auto simp: adead_tensor_create_def zero_tensor_def Let_def unat_gt_0
      split: option.splits if_splits prod.splits)

text \<open>The loops in 64-bit words against the layout in natural numbers.\<close>

lemma numel_word:
  assumes "n \<le> length shp"
  shows "fold (\<lambda>i m. m * shp ! i) [0..<n] (1 :: u64) = of_nat (prod_list (map unat (take n shp)))"
  using assms
proof (induction n)
  case 0
  then show ?case by simp
next
  case (Suc n)
  then have "n < length shp" by simp
  then have "take (Suc n) shp = take n shp @ [shp ! n]"
    by (simp add: take_Suc_conv_app_nth)
  with Suc show ?case by simp
qed

lemma strides_word:
  assumes n: "0 < n" "n \<le> length shp" "n \<le> length st"
    and last: "st ! (n - 1) = (of_nat es :: u64)"
    and rel: "\<forall>i. i + 1 < n \<longrightarrow> st ! i = st ! (i + 1) * shp ! (i + 1)"
    and d: "d < n"
  shows "st ! (n - 1 - d) = of_nat (row_major_stride es (map unat (take n shp)) (n - 1 - d))"
  using d
proof (induction d)
  case 0
  from n have "drop n (map unat (take n shp)) = []" by simp
  with n last show ?case
    by (simp add: row_major_stride_def)
next
  case (Suc d)
  let ?dims = "map unat (take n shp)"
  let ?i = "n - 1 - Suc d"
  from Suc.prems have i: "?i + 1 < n" "?i + 1 = n - 1 - d" by simp_all
  from Suc have ih: "st ! (?i + 1) = of_nat (row_major_stride es ?dims (?i + 1))"
    using i by simp
  from i n have len: "?i + 1 < length ?dims" by simp
  have "drop (?i + 1) ?dims = ?dims ! (?i + 1) # drop (Suc (?i + 1)) ?dims"
    by (rule Cons_nth_drop_Suc[OF len, symmetric])
  moreover have "?dims ! (?i + 1) = unat (shp ! (?i + 1))"
    using i n by simp
  ultimately have step: "row_major_stride es ?dims ?i
      = row_major_stride es ?dims (?i + 1) * unat (shp ! (?i + 1))"
    by (simp add: row_major_stride_def)
  from rel i have "st ! ?i = st ! (?i + 1) * shp ! (?i + 1)" by blast
  with ih step show ?case by simp
qed


lemma unat_ucast_u32: "unat (ucast (x :: u32) :: u64) = unat x"
proof -
  have "unat x < 2 ^ 32"
    using unsigned_less[of x] by simp
  then have "unat x < 2 ^ 64"
    by simp
  then show ?thesis
    by (simp add: unsigned_ucast_eq take_bit_nat_eq_self)
qed

lemma created_tensor_words:
  assumes "adead_tensor_create w rt t0 (Some shp) ndim dtype = Some (ADEAD_OK, Some t, w')"
  shows "0 < unat ndim \<and> unat ndim \<le> 8 \<and> unat ndim \<le> length shp
       \<and> length (tensor_strides t) = 8 \<and> length (tensor_shape t) = 8
       \<and> tensor_strides t ! (unat ndim - 1) = ucast (adead_dtype_size dtype)
       \<and> (\<forall>i. i + 1 < unat ndim \<longrightarrow>
             tensor_strides t ! i = tensor_strides t ! (i + 1) * shp ! (i + 1))
       \<and> (\<forall>i. i < unat ndim \<longrightarrow> tensor_shape t ! i = shp ! i)
       \<and> adead_tensor_numel t = Some (fold (\<lambda>i m. m * shp ! i) [0..<unat ndim] 1)
       \<and> tensor_size_bytes t
           = fold (\<lambda>i m. m * shp ! i) [0..<unat ndim] 1 * ucast (adead_dtype_size dtype)"
proof -
  let ?n = "unat ndim"
  let ?es = "ucast (adead_dtype_size dtype) :: u64"
  let ?st0 = "(replicate 8 0)[?n - 1 := ?es] :: u64 list"
  note ok = tensor_create_ok[OF assms]
  then have n: "0 < ?n" "?n \<le> 8" "?n \<le> length shp" by simp_all
  from n have n8: "?n \<le> length (replicate 8 (0 :: u64))" by simp
  note cs = copy_shape_props[OF n8, of shp]
  from n have k: "?n - 1 < length ?st0" by simp
  note rs = row_major_strides_props[OF k, of shp]
  have sh: "\<forall>i. i < ?n \<longrightarrow> tensor_shape t ! i = shp ! i"
    using ok cs by simp
  have len_sh: "length (tensor_shape t) = 8"
    using ok cs by simp
  have len_st: "length (tensor_strides t) = 8"
    using ok rs by (simp add: row_major_strides_def)
  have st_last: "tensor_strides t ! (?n - 1) = ?es"
    using ok rs k by (simp add: row_major_strides_def)
  have st_rel: "\<forall>i. i + 1 < ?n \<longrightarrow>
      tensor_strides t ! i = tensor_strides t ! (i + 1) * shp ! (i + 1)"
  proof (intro allI impI)
    fix i assume "i + 1 < ?n"
    then have "i < ?n - 1" by simp
    with rs show "tensor_strides t ! i = tensor_strides t ! (i + 1) * shp ! (i + 1)"
      using ok by (simp add: row_major_strides_def)
  qed
  have "fold (\<lambda>i m. m * tensor_shape t ! i) [0..<?n] 1 = fold (\<lambda>i m. m * shp ! i) [0..<?n] 1"
    by (rule fold_cong) (use sh in auto)
  then have numel: "adead_tensor_numel t = Some (fold (\<lambda>i m. m * shp ! i) [0..<?n] 1)"
    using ok n len_sh by (simp add: adead_tensor_numel_def)
  have bytes: "tensor_size_bytes t = fold (\<lambda>i m. m * shp ! i) [0..<?n] 1 * ?es"
    using ok cs by simp
  show ?thesis
    using n len_st len_sh st_last st_rel sh numel bytes by blast
qed

section \<open>The claims\<close>

subsection \<open>C1: what the public operations check\<close>

text \<open>
  Claim C1, as amended. Each public operation (\<open>adead_matmul\<close>, \<open>adead_add\<close>,
  \<open>adead_relu\<close>, \<open>adead_softmax\<close>, \<open>adead_tensor_copy_from\<close>,
  \<open>adead_tensor_copy_to\<close>, \<open>adead_tensor_create\<close>) first checks that the
  runtime pointer and its tensor, shape and buffer pointers are not \<open>NULL\<close>
  (\<open>adead_tensor_create\<close> also that \<open>ndim\<close> lies between 1 and 8), and
  returns \<open>ADEAD_ERROR_INVALID_PARAM\<close> with the world untouched, so without a call
  of the backend, when a check fails. No operation reads the flag \<open>initialized\<close>:
  its result is the same whatever the flag holds. On a context with a capability
  table installed and pointers that are not \<open>NULL\<close>, the four numeric operations
  call the hook of the table and return \<open>ADEAD_OK\<close>.
\<close>

theorem operations_check_pointers_only:
  "(rt = None \<or> a = None \<or> b = None \<or> c = None \<longrightarrow>
      adead_matmul w rt a b c = Some (ADEAD_ERROR_INVALID_PARAM, w)
    \<and> adead_add w rt a b c = Some (ADEAD_ERROR_INVALID_PARAM, w))
 \<and> (rt = None \<or> a = None \<or> b = None \<longrightarrow>
      adead_relu w rt a b = Some (ADEAD_ERROR_INVALID_PARAM, w)
    \<and> adead_softmax w rt a b = Some (ADEAD_ERROR_INVALID_PARAM, w))
 \<and> (rt = None \<or> a = None \<or> data_ptr = NULL \<longrightarrow>
      adead_tensor_copy_from w rt a data_ptr sz = Some (ADEAD_ERROR_INVALID_PARAM, w)
    \<and> adead_tensor_copy_to w rt a data_ptr sz = Some (ADEAD_ERROR_INVALID_PARAM, w))
 \<and> (rt = None \<or> a = None \<or> shape_ptr = None \<or> ndim = 0 \<or> unat ndim > 8 \<longrightarrow>
      adead_tensor_create w rt a shape_ptr ndim dtype = Some (ADEAD_ERROR_INVALID_PARAM, a, w))
 \<and> adead_matmul w (Some (r\<lparr>rt_initialized := v\<rparr>)) a b c = adead_matmul w (Some r) a b c
 \<and> adead_add w (Some (r\<lparr>rt_initialized := v\<rparr>)) a b c = adead_add w (Some r) a b c
 \<and> adead_relu w (Some (r\<lparr>rt_initialized := v\<rparr>)) a b = adead_relu w (Some r) a b
 \<and> adead_softmax w (Some (r\<lparr>rt_initialized := v\<rparr>)) a b = adead_softmax w (Some r) a b
 \<and> adead_tensor_copy_from w (Some (r\<lparr>rt_initialized := v\<rparr>)) a data_ptr sz
      = adead_tensor_copy_from w (Some r) a data_ptr sz
 \<and> adead_tensor_copy_to w (Some (r\<lparr>rt_initialized := v\<rparr>)) a data_ptr sz
      = adead_tensor_copy_to w (Some r) a data_ptr sz
 \<and> adead_tensor_create w (Some (r\<lparr>rt_initialized := v\<rparr>)) a shape_ptr ndim dtype
      = adead_tensor_create w (Some r) a shape_ptr ndim dtype
 \<and> (rt_backend_vtable r = Some vt \<longrightarrow>
      adead_matmul w (Some r) (Some ta) (Some tb) (Some tc) =
        Some (ADEAD_OK,
              vt_matmul vt w (rt_backend_ctx r) (tensor_data ta) (tensor_data tb) (tensor_data tc)
                (ucast (tensor_shape ta ! 0)) (ucast (tensor_shape tb ! 1))
                (ucast (tensor_shape ta ! 1)))
    \<and> adead_softmax w (Some r) (Some ta) (Some tb) =
        Some (ADEAD_OK,
              vt_softmax vt w (rt_backend_ctx r) (tensor_data ta) (tensor_data tb)
                (ucast (tensor_shape ta ! 0)) (ucast (tensor_shape ta ! 1))))
 \<and> (rt_backend_vtable r = Some vt \<and> adead_tensor_numel ta = Some numel \<longrightarrow>
      adead_add w (Some r) (Some ta) (Some tb) (Some tc) =
        Some (ADEAD_OK,
              vt_add vt w (rt_backend_ctx r) (tensor_data ta) (tensor_data tb) (tensor_data tc)
                (ucast numel))
    \<and> adead_relu w (Some r) (Some ta) (Some tb) =
        Some (ADEAD_OK,
              vt_relu vt w (rt_backend_ctx r) (tensor_data ta) (tensor_data tb) (ucast numel)))"
proof -
  have null4: "rt = None \<or> a = None \<or> b = None \<or> c = None \<longrightarrow>
      adead_matmul w rt a b c = Some (ADEAD_ERROR_INVALID_PARAM, w)
    \<and> adead_add w rt a b c = Some (ADEAD_ERROR_INVALID_PARAM, w)"
    by (auto simp: adead_matmul_def adead_add_def split: option.splits)
  have null3: "rt = None \<or> a = None \<or> b = None \<longrightarrow>
      adead_relu w rt a b = Some (ADEAD_ERROR_INVALID_PARAM, w)
    \<and> adead_softmax w rt a b = Some (ADEAD_ERROR_INVALID_PARAM, w)"
    by (auto simp: adead_relu_def adead_softmax_def split: option.splits)
  have nullc: "rt = None \<or> a = None \<or> data_ptr = NULL \<longrightarrow>
      adead_tensor_copy_from w rt a data_ptr sz = Some (ADEAD_ERROR_INVALID_PARAM, w)
    \<and> adead_tensor_copy_to w rt a data_ptr sz = Some (ADEAD_ERROR_INVALID_PARAM, w)"
    by (auto simp: adead_tensor_copy_from_def adead_tensor_copy_to_def split: option.splits)
  have nullt: "rt = None \<or> a = None \<or> shape_ptr = None \<or> ndim = 0 \<or> unat ndim > 8 \<longrightarrow>
      adead_tensor_create w rt a shape_ptr ndim dtype = Some (ADEAD_ERROR_INVALID_PARAM, a, w)"
    by (auto simp: adead_tensor_create_def split: option.splits)
  have flag: "adead_matmul w (Some (r\<lparr>rt_initialized := v\<rparr>)) a b c = adead_matmul w (Some r) a b c"
    "adead_add w (Some (r\<lparr>rt_initialized := v\<rparr>)) a b c = adead_add w (Some r) a b c"
    "adead_relu w (Some (r\<lparr>rt_initialized := v\<rparr>)) a b = adead_relu w (Some r) a b"
    "adead_softmax w (Some (r\<lparr>rt_initialized := v\<rparr>)) a b = adead_softmax w (Some r) a b"
    "adead_tensor_copy_from w (Some (r\<lparr>rt_initialized := v\<rparr>)) a data_ptr sz
      = adead_tensor_copy_from w (Some r) a data_ptr sz"
    "adead_tensor_copy_to w (Some (r\<lparr>rt_initialized := v\<rparr>)) a data_ptr sz
      = adead_tensor_copy_to w (Some r) a data_ptr sz"
    "adead_tensor_create w (Some (r\<lparr>rt_initialized := v\<rparr>)) a shape_ptr ndim dtype
      = adead_tensor_create w (Some r) a shape_ptr ndim dtype"
    by (simp_all add: adead_matmul_def adead_add_def adead_relu_def adead_softmax_def
        adead_tensor_copy_from_def adead_tensor_copy_to_def adead_tensor_create_def Let_def
        cong: option.case_cong if_cong prod.case_cong)
  have fwd2: "rt_backend_vtable r = Some vt \<longrightarrow>
      adead_matmul w (Some r) (Some ta) (Some tb) (Some tc) =
        Some (ADEAD_OK,
              vt_matmul vt w (rt_backend_ctx r) (tensor_data ta) (tensor_data tb) (tensor_data tc)
                (ucast (tensor_shape ta ! 0)) (ucast (tensor_shape tb ! 1))
                (ucast (tensor_shape ta ! 1)))
    \<and> adead_softmax w (Some r) (Some ta) (Some tb) =
        Some (ADEAD_OK,
              vt_softmax vt w (rt_backend_ctx r) (tensor_data ta) (tensor_data tb)
                (ucast (tensor_shape ta ! 0)) (ucast (tensor_shape ta ! 1)))"
    by (simp add: adead_matmul_def adead_softmax_def Let_def)
  have fwd1: "rt_backend_vtable r = Some vt \<and> adead_tensor_numel ta = Some numel \<longrightarrow>
      adead_add w (Some r) (Some ta) (Some tb) (Some tc) =
        Some (ADEAD_OK,
              vt_add vt w (rt_backend_ctx r) (tensor_data ta) (tensor_data tb) (tensor_data tc)
                (ucast numel))
    \<and> adead_relu w (Some r) (Some ta) (Some tb) =
        Some (ADEAD_OK,
              vt_relu vt w (rt_backend_ctx r) (tensor_data ta) (tensor_data tb) (ucast numel))"
    by (simp add: adead_add_def adead_relu_def Let_def)
  show ?thesis
    using null4 null3 nullc nullt flag fwd2 fwd1 by blast
qed

subsection \<open>C2: tensor creation when the backend cannot allocate\<close>

text \<open>
  Claim C2, as amended. For valid arguments (\<open>ndim\<close> between 1 and 8, a shape
  array of at least \<open>ndim\<close> entries), if the allocator of the active backend
  returns \<open>NULL\<close> for the requested number of bytes, \<open>adead_tensor_create\<close>
  returns \<open>ADEAD_ERROR_OUT_OF_MEMORY\<close> and leaves a descriptor whose \<open>data\<close>
  is \<open>NULL\<close> and whose other fields hold the values computed for the request:
  the copied shape, the row-major strides, \<open>ndim\<close>, \<open>dtype\<close>, the active
  backend as \<open>device\<close> and the byte size. Since \<open>ndim\<close> is not 0, this is not
  the zeroed descriptor.
\<close>

theorem create_alloc_failure:
  assumes nd: "ndim \<noteq> 0" "unat ndim \<le> 8" "unat ndim \<le> length shp"
    and vt: "rt_backend_vtable r = Some vt"
    and fail: "vt_alloc vt w (rt_backend_ctx r)
                 (snd (copy_shape shp (unat ndim) (replicate 8 0)) * ucast (adead_dtype_size dtype))
               = Some (NULL, w')"
  shows "adead_tensor_create w (Some r) (Some t0) (Some shp) ndim dtype =
           Some (ADEAD_ERROR_OUT_OF_MEMORY,
                 Some \<lparr>tensor_data = NULL,
                       tensor_shape = fst (copy_shape shp (unat ndim) (replicate 8 0)),
                       tensor_strides = row_major_strides shp (unat ndim)
                          ((replicate 8 0)[unat ndim - 1 := ucast (adead_dtype_size dtype)]),
                       tensor_ndim = ndim, tensor_dtype = dtype,
                       tensor_device = rt_active_backend r,
                       tensor_size_bytes = snd (copy_shape shp (unat ndim) (replicate 8 0))
                                             * ucast (adead_dtype_size dtype)\<rparr>,
                 w')
       \<and> adead_tensor_create w (Some r) (Some t0) (Some shp) ndim dtype
           \<noteq> Some (ADEAD_ERROR_OUT_OF_MEMORY, Some zero_tensor, w')"
  using assms
  by (simp add: adead_tensor_create_def zero_tensor_def Let_def split_beta)

subsection \<open>C3: arena allocation\<close>

text \<open>
  Claim C3, as amended. For every initialized arena (its base is not \<open>NULL\<close>) and
  every call \<open>alloc(size, alignment)\<close>: a request of size 0 fails and leaves the
  arena unchanged. For a request of a positive size, let
  \<open>aligned_offset = align_up(offset, alignment)\<close> and let the sum
  \<open>aligned_offset + size\<close> be representable in \<open>size_t\<close> (it is below
  \<open>2 ^ 64\<close>). If the sum is greater than the capacity, the call returns \<open>NULL\<close>
  and leaves offset, peak and capacity unchanged, so the first allocation that
  would exceed the capacity fails with the offset unchanged. Otherwise it returns
  \<open>base + aligned_offset\<close>, sets the offset to the sum and the peak to the
  maximum of the old peak and the new offset. Sums and comparison are those of the
  natural numbers.
\<close>

theorem arena_alloc_spec:
  assumes "arena_base a \<noteq> NULL"
  shows "adead_arena_alloc (Some a) 0 al = (NULL, Some a)
     \<and> (sz \<noteq> 0 \<and> unat (adead_align_up (arena_offset a) al) + unat sz < 2 ^ 64 \<longrightarrow>
          adead_arena_alloc (Some a) sz al =
            (if unat (adead_align_up (arena_offset a) al) + unat sz > unat (arena_capacity a)
             then (NULL, Some a)
             else (arena_base a + adead_align_up (arena_offset a) al,
                   Some (a\<lparr>arena_offset := adead_align_up (arena_offset a) al + sz,
                           arena_peak := max (arena_peak a)
                                             (adead_align_up (arena_offset a) al + sz)\<rparr>)))
        \<and> unat (adead_align_up (arena_offset a) al + sz)
            = unat (adead_align_up (arena_offset a) al) + unat sz)"
proof -
  let ?ao = "adead_align_up (arena_offset a) al"
  have zero: "adead_arena_alloc (Some a) 0 al = (NULL, Some a)"
    by (simp add: adead_arena_alloc_def arena_alloc_def)
  have pos: "adead_arena_alloc (Some a) sz al =
            (if unat ?ao + unat sz > unat (arena_capacity a)
             then (NULL, Some a)
             else (arena_base a + ?ao,
                   Some (a\<lparr>arena_offset := ?ao + sz,
                           arena_peak := max (arena_peak a) (?ao + sz)\<rparr>)))
        \<and> unat (?ao + sz) = unat ?ao + unat sz"
    if nz: "sz \<noteq> 0" and fits: "unat ?ao + unat sz < 2 ^ 64"
  proof -
    have sum: "unat (?ao + sz) = unat ?ao + unat sz"
      using fits by (simp add: unat_word_ariths)
    then have cmp: "(?ao + sz > arena_capacity a) = (unat ?ao + unat sz > unat (arena_capacity a))"
      by (simp add: word_less_nat_alt)
    have peak: "(if ?ao + sz > arena_peak a
                 then a\<lparr>arena_offset := ?ao + sz, arena_peak := ?ao + sz\<rparr>
                 else a\<lparr>arena_offset := ?ao + sz\<rparr>)
             = a\<lparr>arena_offset := ?ao + sz, arena_peak := max (arena_peak a) (?ao + sz)\<rparr>"
      by (cases "?ao + sz > arena_peak a") (simp_all add: max_def not_less)
    show ?thesis
      using assms nz peak sum cmp
      by (simp add: adead_arena_alloc_def arena_alloc_def Let_def)
  qed
  show ?thesis using zero pos by blast
qed

subsection \<open>C4: the pool of four blocks\<close>

text \<open>
  Claim C4. Let \<open>adead_pool_init\<close> be called with block size 256 and 4 blocks, and
  let \<open>malloc\<close> return the block \<open>base\<close>, which is not \<open>NULL\<close> and whose 1024
  bytes end below the top of the address space. Then the call succeeds; the free
  list holds the blocks in reverse index order (\<open>base + 768\<close>, \<open>base + 512\<close>,
  \<open>base + 256\<close>, \<open>base\<close>); of five calls of \<open>adead_pool_alloc\<close> in a row the
  first four return these blocks in that order, the highest index first, and the
  fifth returns \<open>NULL\<close>, with the pool still of capacity 4; and after freeing any
  one of the four blocks the next allocation returns that block.
\<close>

theorem pool_256_4:
  assumes script: "malloc_script w = base # rest" and nn: "base \<noteq> NULL"
    and fits: "unat base + 1024 < 2 ^ 64"
    and init: "adead_pool_init w (Some pool) 256 4 = (err, p0, w0)"
    and allocs: "pool_alloc_times 5 w0 p0 = (ptrs, p5)"
    and b: "b \<in> {base, base + 256, base + 512, base + 768}"
    and fr: "adead_pool_free w0 p5 b = (p6, w6)"
  shows "err = ADEAD_OK
     \<and> map_option pool_free_list p0 = Some (base + 768)
     \<and> free_list_blocks 5 (block_next w0) (base + 768) = [base + 768, base + 512, base + 256, base]
     \<and> ptrs = [base + 768, base + 512, base + 256, base, NULL]
     \<and> map_option pool_used p5 = Some 4 \<and> map_option pool_capacity p5 = Some 4
     \<and> map_option pool_free_list p5 = Some NULL
     \<and> fst (adead_pool_alloc w6 p6) = b"
proof -
  note nz = nonnull_blocks[OF nn fits]
  let ?nx = "(block_next w)(base := NULL, base + 256 := base, base + 512 := base + 256, base + 768 := base + 512)"
  let ?P0 = "\<lparr>pool_base = base, pool_free_list = base + 768, pool_block_size = 256, pool_capacity = 4, pool_used = 0\<rparr>"
  from init pool_init_256_4[OF script nn, of pool]
  have e: "err = ADEAD_OK" and p0: "p0 = Some ?P0"
    and w0: "w0 = w\<lparr>malloc_script := rest, live_blocks := add_mset base (live_blocks w), block_next := ?nx\<rparr>"
    by simp_all
  have nx: "block_next w0 (base + 768) = base + 512" "block_next w0 (base + 512) = base + 256"
       "block_next w0 (base + 256) = base" "block_next w0 base = NULL"
    by (simp_all add: w0)
  have walk: "free_list_blocks 5 (block_next w0) (base + 768) = [base + 768, base + 512, base + 256, base]"
    using nz nn by (simp add: numeral_eq_Suc nx)
  have run: "pool_alloc_times 5 w0 p0 =
      ([base + 768, base + 512, base + 256, base, NULL], Some (?P0\<lparr>pool_free_list := NULL, pool_used := 4\<rparr>))"
    using nz nn by (simp add: numeral_eq_Suc p0 adead_pool_alloc_def pool_alloc_def nx Let_def)
  with allocs have ptrs: "ptrs = [base + 768, base + 512, base + 256, base, NULL]"
    and p5: "p5 = Some (?P0\<lparr>pool_free_list := NULL, pool_used := 4\<rparr>)"
    by simp_all
  have rng: "b \<noteq> NULL \<and> base \<le> b \<and> b < base + 256 * 4"
    using b nz nn fits by (auto simp: word_le_nat_alt word_less_nat_alt unat_word_ariths)
  have "fst (adead_pool_alloc w6 p6) = b"
    using pool_free_then_alloc[of b "?P0\<lparr>pool_free_list := NULL, pool_used := 4\<rparr>" w0 p6 w6] rng fr
    by (simp add: p5)
  then show ?thesis
    using e p0 walk ptrs p5 by simp
qed

subsection \<open>C5: the counters of the memory manager\<close>

text \<open>
  Claim C5. On a memory manager that \<open>adead_memory_init\<close> has just initialized,
  after \<open>adead_memory_scratch\<close> of 100 and then of 200 bytes, both returning a
  pointer, \<open>total_alloc\<close> is 300 and \<open>alloc_count\<close> is 2, while the offset of
  the arena is 312 (the second block starts at 112). \<open>adead_memory_scratch_reset\<close>
  then adds this offset, 312, to \<open>total_freed\<close>, whatever the capacity, adds 1 to
  \<open>free_count\<close> and sets the offset to 0. On any memory manager \<open>m\<close> the reset
  adds the current offset of the arena to \<open>total_freed\<close> and 1 to \<open>free_count\<close>.
\<close>

theorem scratch_counters:
  assumes init: "adead_memory_init w (Some mm0) scratch_size pool_size = (ADEAD_OK, Some mm, w')"
    and a1: "adead_memory_scratch (Some mm) 100 = (p1, Some mm1)" and p1: "p1 \<noteq> NULL"
    and a2: "adead_memory_scratch (Some mm1) 200 = (p2, Some mm2)" and p2: "p2 \<noteq> NULL"
  shows "mm_total_alloc mm2 = 300 \<and> mm_alloc_count mm2 = 2
     \<and> arena_offset (mm_scratch mm2) = 312
     \<and> adead_memory_scratch_reset (Some mm2) =
         Some (mm2\<lparr>mm_total_freed := 312, mm_free_count := 1,
                   mm_scratch := (mm_scratch mm2)\<lparr>arena_offset := 0\<rparr>\<rparr>)
     \<and> adead_memory_scratch_reset (Some m) =
         Some (m\<lparr>mm_total_freed := mm_total_freed m + arena_offset (mm_scratch m),
                 mm_free_count := mm_free_count m + 1,
                 mm_scratch := (mm_scratch m)\<lparr>arena_offset := 0\<rparr>\<rparr>)"
proof -
  from init have mi: "memory_init w scratch_size pool_size = (ADEAD_OK, mm, w')"
    by (auto simp: adead_memory_init_def split: prod.splits)
  note f = memory_init_ok[OF mi]
  have al0: "adead_align_up 0 16 = 0" and al100: "adead_align_up 100 16 = 112"
    by (simp_all add: adead_align_up_def)
  from a1 p1 f have m1: "mm_total_alloc mm1 = 100 \<and> mm_alloc_count mm1 = 1
      \<and> mm_total_freed mm1 = 0 \<and> mm_free_count mm1 = 0
      \<and> arena_offset (mm_scratch mm1) = 100 \<and> arena_base (mm_scratch mm1) \<noteq> NULL"
    by (auto simp: adead_memory_scratch_def arena_alloc_def Let_def al0 split: if_splits)
  from a2 p2 m1 have m2: "mm_total_alloc mm2 = 300 \<and> mm_alloc_count mm2 = 2
      \<and> mm_total_freed mm2 = 0 \<and> mm_free_count mm2 = 0
      \<and> arena_offset (mm_scratch mm2) = 312"
    by (auto simp: adead_memory_scratch_def arena_alloc_def Let_def al100 split: if_splits)
  have r: "adead_memory_scratch_reset (Some m) =
         Some (m\<lparr>mm_total_freed := mm_total_freed m + arena_offset (mm_scratch m),
                 mm_free_count := mm_free_count m + 1,
                 mm_scratch := (mm_scratch m)\<lparr>arena_offset := 0\<rparr>\<rparr>)" for m
    by (simp add: adead_memory_scratch_reset_def arena_reset_def Let_def)
  show ?thesis using m2 r[of mm2] r[of m] by simp
qed

subsection \<open>C6: a failed initialization holds no resource\<close>

text \<open>
  Claim C6. Whenever one of the init entry points (\<open>adead_arena_init\<close>,
  \<open>adead_pool_init\<close>, \<open>adead_memory_init\<close>, \<open>adead_init\<close>,
  \<open>adead_init_auto\<close>) returns an error, the blocks held from \<open>malloc\<close> are those
  held before the call. When \<open>adead_memory_init\<close> fails, also when its pool cannot
  be initialized after the scratch arena was created, the memory manager it leaves
  is the zeroed one: the arena has been destroyed. When \<open>adead_init\<close> fails, also
  when the init hook of the backend fails or the backend identity is not a known
  one (which is an error) after the memory manager was created, the memory manager
  of the context is the zeroed one and \<open>initialized\<close> is 0.
\<close>

theorem init_failure_holds_nothing:
  "(fst (adead_arena_init w ao c) \<noteq> ADEAD_OK \<longrightarrow>
      live_blocks (snd (snd (adead_arena_init w ao c))) = live_blocks w)
 \<and> (fst (adead_pool_init w po bs nb) \<noteq> ADEAD_OK \<longrightarrow>
      live_blocks (snd (snd (adead_pool_init w po bs nb))) = live_blocks w)
 \<and> (fst (adead_memory_init w (Some m) ss ps) \<noteq> ADEAD_OK \<longrightarrow>
      fst (snd (adead_memory_init w (Some m) ss ps)) = Some zero_memory_manager
    \<and> live_blocks (snd (snd (adead_memory_init w (Some m) ss ps))) = live_blocks w)
 \<and> (fst (adead_init w (Some r) b) \<noteq> ADEAD_OK \<longrightarrow>
      map_option rt_memory (fst (snd (adead_init w (Some r) b))) = Some zero_memory_manager
    \<and> map_option rt_initialized (fst (snd (adead_init w (Some r) b))) = Some 0
    \<and> live_blocks (snd (snd (adead_init w (Some r) b))) = live_blocks w)
 \<and> (b \<notin> {0, 1, 2, 255} \<longrightarrow> fst (adead_init w (Some r) b) \<noteq> ADEAD_OK)
 \<and> adead_init_auto w (Some r) = adead_init w (Some r) ADEAD_BACKEND_AUTO
 \<and> adead_memory_init w None ss ps = (ADEAD_ERROR_INVALID_PARAM, None, w)
 \<and> adead_init w None b = (ADEAD_ERROR_INVALID_PARAM, None, w)"
proof -
  have a: "fst (adead_arena_init w ao c) \<noteq> ADEAD_OK \<longrightarrow>
      live_blocks (snd (snd (adead_arena_init w ao c))) = live_blocks w"
  proof (cases ao)
    case None
    then show ?thesis by (simp add: adead_arena_init_def)
  next
    case (Some a0)
    obtain e a' w' where r: "arena_init w a0 c = (e, a', w')" by (metis prod_cases3)
    from arena_init_cases[OF r] show ?thesis
      by (auto simp: adead_arena_init_def Some r)
  qed
  have p: "fst (adead_pool_init w po bs nb) \<noteq> ADEAD_OK \<longrightarrow>
      live_blocks (snd (snd (adead_pool_init w po bs nb))) = live_blocks w"
  proof (cases po)
    case None
    then show ?thesis by (simp add: adead_pool_init_def)
  next
    case (Some p0)
    obtain e p' w' where r: "pool_init w p0 bs nb = (e, p', w')" by (metis prod_cases3)
    from pool_init_cases[OF r] show ?thesis
      by (auto simp: adead_pool_init_def Some r)
  qed
  obtain e1 mm w1 where mi: "memory_init w ss ps = (e1, mm, w1)" by (metis prod_cases3)
  have m: "fst (adead_memory_init w (Some m) ss ps) \<noteq> ADEAD_OK \<longrightarrow>
      fst (snd (adead_memory_init w (Some m) ss ps)) = Some zero_memory_manager
    \<and> live_blocks (snd (snd (adead_memory_init w (Some m) ss ps))) = live_blocks w"
    using memory_init_cases[OF mi] by (auto simp: adead_memory_init_def mi)
  obtain e2 rt w2 where ri: "adead_init w (Some r) b = (e2, rt, w2)" by (metis prod_cases3)
  have i: "fst (adead_init w (Some r) b) \<noteq> ADEAD_OK \<longrightarrow>
      map_option rt_memory (fst (snd (adead_init w (Some r) b))) = Some zero_memory_manager
    \<and> map_option rt_initialized (fst (snd (adead_init w (Some r) b))) = Some 0
    \<and> live_blocks (snd (snd (adead_init w (Some r) b))) = live_blocks w"
    using adead_init_cases[OF ri] by (auto simp: ri)
  have u: "b \<notin> {0, 1, 2, 255} \<longrightarrow> fst (adead_init w (Some r) b) \<noteq> ADEAD_OK"
    using adead_init_cases[OF ri] by (auto simp: ri)
  have n: "adead_init_auto w (Some r) = adead_init w (Some r) ADEAD_BACKEND_AUTO"
    "adead_memory_init w None ss ps = (ADEAD_ERROR_INVALID_PARAM, None, w)"
    "adead_init w None b = (ADEAD_ERROR_INVALID_PARAM, None, w)"
    by (simp_all add: adead_init_auto_def adead_memory_init_def adead_init_def)
  show ?thesis using a p m i u n by blast
qed

subsection \<open>C7: a request for CUDA or Vulkan runs on the CPU table\<close>

text \<open>
  Claim C7. For the backend identities CUDA and VULKAN, \<open>adead_init\<close> does what it
  does for CPU: the request is never answered with \<open>ADEAD_ERROR_INVALID_PARAM\<close>;
  it succeeds when the three allocations it makes (scratch arena, tensor pool,
  backend context) succeed; and when it succeeds the context has the CPU table
  installed, \<open>adead_get_backend\<close> returns \<open>ADEAD_BACKEND_CPU\<close> and
  \<open>adead_get_backend_name\<close> returns \<open>CPU\<close>.
\<close>

theorem gpu_request_runs_on_cpu:
  assumes "backend = ADEAD_BACKEND_CUDA \<or> backend = ADEAD_BACKEND_VULKAN"
  shows "adead_init w (Some rt0) backend = adead_init w (Some rt0) ADEAD_BACKEND_CPU
     \<and> fst (adead_init w (Some rt0) backend) \<noteq> ADEAD_ERROR_INVALID_PARAM
     \<and> (malloc_script w = p1 # p2 # p3 # rest \<and> p1 \<noteq> NULL \<and> p2 \<noteq> NULL \<and> p3 \<noteq> NULL \<longrightarrow>
          fst (adead_init w (Some rt0) backend) = ADEAD_OK)
     \<and> (fst (adead_init w (Some rt0) backend) = ADEAD_OK \<longrightarrow>
          adead_get_backend (fst (snd (adead_init w (Some rt0) backend))) = ADEAD_BACKEND_CPU
        \<and> adead_get_backend_name (fst (snd (adead_init w (Some rt0) backend))) = ''CPU''
        \<and> map_option rt_backend_vtable (fst (snd (adead_init w (Some rt0) backend)))
            = Some (Some cpu_vtable)
        \<and> map_option rt_initialized (fst (snd (adead_init w (Some rt0) backend))) = Some 1)"
proof -
  from assms have b: "backend \<in> {0, 1, 2, 255}" by auto
  have sb: "select_backend backend = Some (cpu_vtable, 0)"
    "select_backend ADEAD_BACKEND_CPU = Some (cpu_vtable, 0)"
    using b by (simp_all add: select_backend_cases)
  have same: "adead_init w (Some rt0) backend = adead_init w (Some rt0) ADEAD_BACKEND_CPU"
    unfolding adead_init_def sb by (rule refl)
  obtain e rt w' where r: "adead_init w (Some rt0) backend = (e, rt, w')"
    by (metis prod_cases3)
  note c = adead_init_cases[OF r]
  have notrej: "fst (adead_init w (Some rt0) backend) \<noteq> ADEAD_ERROR_INVALID_PARAM"
    using c b by (auto simp: r)
  have succ: "malloc_script w = p1 # p2 # p3 # rest \<and> p1 \<noteq> NULL \<and> p2 \<noteq> NULL \<and> p3 \<noteq> NULL \<longrightarrow>
          fst (adead_init w (Some rt0) backend) = ADEAD_OK"
    using adead_init_succeeds[OF _ _ _ _ b] by blast
  have ok: "fst (adead_init w (Some rt0) backend) = ADEAD_OK \<longrightarrow>
          adead_get_backend (fst (snd (adead_init w (Some rt0) backend))) = ADEAD_BACKEND_CPU
        \<and> adead_get_backend_name (fst (snd (adead_init w (Some rt0) backend))) = ''CPU''
        \<and> map_option rt_backend_vtable (fst (snd (adead_init w (Some rt0) backend)))
            = Some (Some cpu_vtable)
        \<and> map_option rt_initialized (fst (snd (adead_init w (Some rt0) backend))) = Some 1"
    using c by (auto simp: r adead_get_backend_def adead_get_backend_name_def cpu_vtable_def)
  show ?thesis
    using same notrej succ ok by blast
qed

subsection \<open>C8: copies are clamped to the size of the tensor\<close>

text \<open>
  Claim C8. On a context with a capability table and with a buffer pointer that is
  not \<open>NULL\<close>, \<open>adead_tensor_copy_from\<close> and \<open>adead_tensor_copy_to\<close> return
  \<open>ADEAD_OK\<close> for every tensor and every byte count, and hand the copy hook of
  the table the count \<open>size_bytes\<close> of the tensor when the caller's count is
  greater, and the caller's count otherwise. With the CPU table, exactly that many
  bytes are copied: with \<open>n\<close> the smaller of the caller's count and
  \<open>size_bytes\<close>, byte \<open>i\<close> of the destination holds byte \<open>i\<close> of the source
  as it was for every \<open>i\<close> below \<open>n\<close>, and every other byte of the memory is as
  it was, also the bytes of the destination from \<open>n\<close> on.
\<close>

theorem copy_clamps:
  assumes "rt_backend_vtable r = Some vt" and "data_ptr \<noteq> NULL"
  shows "adead_tensor_copy_from w (Some r) (Some t) data_ptr sz =
           Some (ADEAD_OK, vt_copy_h2d vt w (rt_backend_ctx r) (tensor_data t) data_ptr
                             (if sz > tensor_size_bytes t then tensor_size_bytes t else sz))
       \<and> adead_tensor_copy_to w (Some r) (Some t) data_ptr sz =
           Some (ADEAD_OK, vt_copy_d2h vt w (rt_backend_ctx r) data_ptr (tensor_data t)
                             (if sz > tensor_size_bytes t then tensor_size_bytes t else sz))
       \<and> (vt = cpu_vtable \<longrightarrow>
            byte_after (adead_tensor_copy_from w (Some r) (Some t) data_ptr sz) x =
              Some (if x - tensor_data t < min sz (tensor_size_bytes t)
                    then bytes w (data_ptr + (x - tensor_data t)) else bytes w x)
          \<and> byte_after (adead_tensor_copy_to w (Some r) (Some t) data_ptr sz) x =
              Some (if x - data_ptr < min sz (tensor_size_bytes t)
                    then bytes w (tensor_data t + (x - data_ptr)) else bytes w x)
          \<and> (i < min sz (tensor_size_bytes t) \<longrightarrow>
                byte_after (adead_tensor_copy_from w (Some r) (Some t) data_ptr sz)
                    (tensor_data t + i) = Some (bytes w (data_ptr + i))
              \<and> byte_after (adead_tensor_copy_to w (Some r) (Some t) data_ptr sz)
                    (data_ptr + i) = Some (bytes w (tensor_data t + i)))
          \<and> (\<not> i < min sz (tensor_size_bytes t) \<longrightarrow>
                byte_after (adead_tensor_copy_from w (Some r) (Some t) data_ptr sz)
                    (tensor_data t + i) = Some (bytes w (tensor_data t + i))
              \<and> byte_after (adead_tensor_copy_to w (Some r) (Some t) data_ptr sz)
                    (data_ptr + i) = Some (bytes w (data_ptr + i))))"
proof -
  let ?n = "if sz > tensor_size_bytes t then tensor_size_bytes t else sz"
  have n: "?n = min sz (tensor_size_bytes t)"
    by (auto simp: min_def)
  have from_eq: "adead_tensor_copy_from w (Some r) (Some t) data_ptr sz =
           Some (ADEAD_OK, vt_copy_h2d vt w (rt_backend_ctx r) (tensor_data t) data_ptr ?n)"
    and to_eq: "adead_tensor_copy_to w (Some r) (Some t) data_ptr sz =
           Some (ADEAD_OK, vt_copy_d2h vt w (rt_backend_ctx r) data_ptr (tensor_data t) ?n)"
    using assms
    by (simp_all add: adead_tensor_copy_from_def adead_tensor_copy_to_def Let_def)
  have cpy: "bytes (memcpy w dst src m) y = (if y - dst < m then bytes w (src + (y - dst)) else bytes w y)"
    for dst src m y
    by (simp add: memcpy_def)
  have cpu: "byte_after (adead_tensor_copy_from w (Some r) (Some t) data_ptr sz) y =
              Some (if y - tensor_data t < min sz (tensor_size_bytes t)
                    then bytes w (data_ptr + (y - tensor_data t)) else bytes w y)
          \<and> byte_after (adead_tensor_copy_to w (Some r) (Some t) data_ptr sz) y =
              Some (if y - data_ptr < min sz (tensor_size_bytes t)
                    then bytes w (tensor_data t + (y - data_ptr)) else bytes w y)"
    if "vt = cpu_vtable" for y
    unfolding from_eq to_eq n using that
    by (simp add: byte_after_def cpu_vtable_def cpu_copy_h2d_def cpu_copy_d2h_def cpy)
  have idx: "vt = cpu_vtable \<longrightarrow>
          (i < min sz (tensor_size_bytes t) \<longrightarrow>
                byte_after (adead_tensor_copy_from w (Some r) (Some t) data_ptr sz)
                    (tensor_data t + i) = Some (bytes w (data_ptr + i))
              \<and> byte_after (adead_tensor_copy_to w (Some r) (Some t) data_ptr sz)
                    (data_ptr + i) = Some (bytes w (tensor_data t + i)))
          \<and> (\<not> i < min sz (tensor_size_bytes t) \<longrightarrow>
                byte_after (adead_tensor_copy_from w (Some r) (Some t) data_ptr sz)
                    (tensor_data t + i) = Some (bytes w (tensor_data t + i))
              \<and> byte_after (adead_tensor_copy_to w (Some r) (Some t) data_ptr sz)
                    (data_ptr + i) = Some (bytes w (data_ptr + i)))"
    using cpu[of "tensor_data t + i"] cpu[of "data_ptr + i"] by simp
  show ?thesis
    using from_eq to_eq cpu[of x] idx by blast
qed

subsection \<open>C9: the layout of a created tensor\<close>

text \<open>
  Claim C9, as amended. For every tensor that \<open>adead_tensor_create\<close> has created
  with \<open>ADEAD_OK\<close> and whose layout fits in 64 bits (no stride, nor the element
  count, nor the byte size reaches \<open>2 ^ 64\<close>), the layout is strictly contiguous
  row-major, as numbers: \<open>strides[ndim - 1]\<close> is the element size of the dtype,
  \<open>strides[i] = strides[i + 1] * shape[i + 1]\<close> for every \<open>i\<close> below
  \<open>ndim - 1\<close>, each stride is the element size times the extents after it, the
  shape is the caller's, \<open>adead_tensor_numel\<close> is the product of the shape and
  \<open>size_bytes\<close> that product times the element size. In particular the shape
  2, 3, 4 gives 24 elements, and the shape 2, 3 with an element size of 4 gives the
  strides 12, 4.
\<close>

theorem created_tensor_row_major:
  assumes created:
      "adead_tensor_create w rt t0 (Some shp) ndim dtype = Some (ADEAD_OK, Some t, w')"
    and fits: "layout_fits (unat (adead_dtype_size dtype)) (map unat (take (unat ndim) shp))"
  shows "unat (tensor_strides t ! (unat ndim - 1)) = unat (adead_dtype_size dtype)
       \<and> (\<forall>i. i + 1 < unat ndim \<longrightarrow>
             unat (tensor_strides t ! i)
               = unat (tensor_strides t ! (i + 1)) * unat (tensor_shape t ! (i + 1)))
       \<and> (\<forall>i. i < unat ndim \<longrightarrow>
             unat (tensor_strides t ! i)
               = row_major_stride (unat (adead_dtype_size dtype))
                   (map unat (take (unat ndim) shp)) i)
       \<and> (\<forall>i. i < unat ndim \<longrightarrow> tensor_shape t ! i = shp ! i)
       \<and> map_option unat (adead_tensor_numel t)
           = Some (prod_list (map unat (take (unat ndim) shp)))
       \<and> unat (tensor_size_bytes t)
           = prod_list (map unat (take (unat ndim) shp)) * unat (adead_dtype_size dtype)
       \<and> (shp = [2, 3, 4] \<and> ndim = 3 \<longrightarrow> adead_tensor_numel t = Some 24)
       \<and> (shp = [2, 3] \<and> ndim = 2 \<and> adead_dtype_size dtype = 4 \<longrightarrow>
             take 2 (tensor_strides t) = [12, 4])"
proof -
  let ?n = "unat ndim"
  let ?es = "unat (adead_dtype_size dtype)"
  let ?dims = "map unat (take ?n shp)"
  note wd = created_tensor_words[OF created]
  then have n: "0 < ?n" "?n \<le> length shp" "?n \<le> length (tensor_strides t)"
    and last: "tensor_strides t ! (?n - 1) = (of_nat ?es :: u64)"
    and rel: "\<forall>i. i + 1 < ?n \<longrightarrow>
        tensor_strides t ! i = tensor_strides t ! (i + 1) * shp ! (i + 1)"
    and sh: "\<forall>i. i < ?n \<longrightarrow> tensor_shape t ! i = shp ! i"
    and numel: "adead_tensor_numel t = Some (fold (\<lambda>i m. m * shp ! i) [0..<?n] 1)"
    and bytes: "tensor_size_bytes t
           = fold (\<lambda>i m. m * shp ! i) [0..<?n] 1 * ucast (adead_dtype_size dtype)"
    by simp_all
  from n have len: "length ?dims = ?n" by simp
  from fits len have f_st: "\<And>i. i < ?n \<Longrightarrow> row_major_stride ?es ?dims i < 2 ^ 64"
    and f_n: "prod_list ?dims < 2 ^ 64" and f_b: "prod_list ?dims * ?es < 2 ^ 64"
    by (simp_all add: layout_fits_def list_all_iff)
  have st_word: "tensor_strides t ! i = of_nat (row_major_stride ?es ?dims i)" if "i < ?n" for i
  proof -
    from that have "?n - 1 - i < ?n" "?n - 1 - (?n - 1 - i) = i" by simp_all
    with strides_word[OF n last rel, of "?n - 1 - i"] show ?thesis by simp
  qed
  have st_nat: "unat (tensor_strides t ! i) = row_major_stride ?es ?dims i" if "i < ?n" for i
    using st_word[OF that] f_st[OF that] by (simp add: unat_of_nat)
  have c1: "unat (tensor_strides t ! (?n - 1)) = ?es"
    using wd by (simp add: unat_ucast_u32)
  have c2: "\<forall>i. i + 1 < ?n \<longrightarrow>
      unat (tensor_strides t ! i) = unat (tensor_strides t ! (i + 1)) * unat (tensor_shape t ! (i + 1))"
  proof (intro allI impI)
    fix i assume i: "i + 1 < ?n"
    then have "i < ?n" by simp
    from i len have "drop (i + 1) ?dims = ?dims ! (i + 1) # drop (Suc (i + 1)) ?dims"
      by (intro Cons_nth_drop_Suc[symmetric]) simp
    moreover have "?dims ! (i + 1) = unat (shp ! (i + 1))"
      using i n by simp
    ultimately have "row_major_stride ?es ?dims i
        = row_major_stride ?es ?dims (i + 1) * unat (shp ! (i + 1))"
      by (simp add: row_major_stride_def)
    with st_nat[OF \<open>i < ?n\<close>] st_nat[OF i] sh i
    show "unat (tensor_strides t ! i)
        = unat (tensor_strides t ! (i + 1)) * unat (tensor_shape t ! (i + 1))"
      by simp
  qed
  have c3: "\<forall>i. i < ?n \<longrightarrow> unat (tensor_strides t ! i) = row_major_stride ?es ?dims i"
    using st_nat by blast
  have nw: "fold (\<lambda>i m. m * shp ! i) [0..<?n] (1 :: u64) = of_nat (prod_list ?dims)"
    using numel_word n by blast
  have c5: "map_option unat (adead_tensor_numel t) = Some (prod_list ?dims)"
    using numel nw f_n by (simp add: unat_of_nat)
  have u: "unat (of_nat m :: u64) = m" if "m < 2 ^ 64" for m
    using that by (simp add: unat_of_nat)
  have eq: "(of_nat (prod_list ?dims) :: u64) * ucast (adead_dtype_size dtype)
      = of_nat (prod_list ?dims * ?es)"
    by simp
  have c6: "unat (tensor_size_bytes t) = prod_list ?dims * ?es"
    unfolding bytes nw eq by (rule u[OF f_b])
  have ex1: "shp = [2, 3, 4] \<and> ndim = 3 \<longrightarrow> adead_tensor_numel t = Some 24"
    using numel by (auto simp: upt_conv_Cons)
  have ex2: "shp = [2, 3] \<and> ndim = 2 \<and> adead_dtype_size dtype = 4 \<longrightarrow>
             take 2 (tensor_strides t) = [12, 4]"
  proof (intro impI, elim conjE)
    assume s: "shp = [2, 3]" and d: "ndim = 2" and e: "adead_dtype_size dtype = 4"
    have "length (tensor_strides t) = 8"
      using wd by simp
    moreover have "tensor_strides t ! 1 = 4"
      using wd d e by simp
    moreover have "tensor_strides t ! 0 = tensor_strides t ! 1 * 3"
      using rel s d by simp
    ultimately show "take 2 (tensor_strides t) = [12, 4]"
      by (cases "tensor_strides t"; cases "tl (tensor_strides t)") auto
  qed
  show ?thesis
    using c1 c2 c3 sh c5 c6 ex1 ex2 by blast
qed

subsection \<open>C10: shutdown of a context that is not initialized\<close>

text \<open>
  Claim C10. On a context whose flag \<open>initialized\<close> is 0, \<open>adead_shutdown\<close>
  returns the context and the world as they are, whatever the shutdown hook of the
  installed table would do: neither the hook nor the destruction of the memory
  manager runs. On a \<open>NULL\<close> context it does nothing. On an initialized context
  it leaves the zeroed context, whose flag is 0. Hence a second shutdown changes
  nothing: shutdown after shutdown is shutdown.
\<close>

theorem shutdown_idempotent:
  "(rt_initialized r = 0 \<longrightarrow> adead_shutdown w (Some r) = (Some r, w))
   \<and> adead_shutdown w None = (None, w)
   \<and> (rt_initialized r \<noteq> 0 \<longrightarrow> fst (adead_shutdown w (Some r)) = Some zero_runtime)
   \<and> adead_shutdown (snd (adead_shutdown w rt)) (fst (adead_shutdown w rt)) = adead_shutdown w rt"
proof -
  have z: "rt_initialized zero_runtime = 0" by (simp add: zero_runtime_def)
  have a: "rt_initialized r = 0 \<Longrightarrow> adead_shutdown w (Some r) = (Some r, w)" for r w
    by (simp add: adead_shutdown_def)
  have b: "adead_shutdown w None = (None, w)" for w
    by (simp add: adead_shutdown_def)
  have c: "rt_initialized r \<noteq> 0 \<Longrightarrow> fst (adead_shutdown w (Some r)) = Some zero_runtime" for r w
    by (simp add: adead_shutdown_def Let_def split_beta)
  have d: "adead_shutdown (snd (adead_shutdown w rt)) (fst (adead_shutdown w rt)) = adead_shutdown w rt"
  proof (cases rt)
    case None
    then show ?thesis by (simp add: b)
  next
    case (Some r0)
    show ?thesis
    proof (cases "rt_initialized r0 = 0")
      case True
      then show ?thesis by (simp add: Some a)
    next
      case False
      then have "fst (adead_shutdown w rt) = Some zero_runtime"
        using c Some by simp
      then show ?thesis
        using a[OF z] by (metis prod.collapse)
    qed
  qed
  show ?thesis using a b c d by blast
qed

section \<open>Instances and counterexamples\<close>

subsection \<open>C1\<close>

text \<open>
  An instance of C1 as amended: \<open>NULL\<close> pointers are rejected, and on a context
  with the CPU table the product and the sum of 2 by 2 matrices reach the kernels.
\<close>

theorem operations_check_pointers_only_witness:
  "adead_matmul (empty_world []) None (Some (matrix_2x2 4096)) (Some (matrix_2x2 4112))
       (Some (matrix_2x2 4128))
     = Some (ADEAD_ERROR_INVALID_PARAM, empty_world [])
   \<and> adead_relu (empty_world []) None (Some (matrix_2x2 4096)) (Some (matrix_2x2 4112))
     = Some (ADEAD_ERROR_INVALID_PARAM, empty_world [])
   \<and> adead_tensor_copy_to (empty_world []) None (Some (matrix_2x2 4096)) NULL 16
     = Some (ADEAD_ERROR_INVALID_PARAM, empty_world [])
   \<and> adead_tensor_create (empty_world []) None (Some (matrix_2x2 4096)) None 0 ADEAD_DTYPE_F32
     = Some (ADEAD_ERROR_INVALID_PARAM, Some (matrix_2x2 4096), empty_world [])
   \<and> adead_matmul (empty_world [])
       (Some (zero_runtime\<lparr>rt_backend_vtable := Some cpu_vtable, rt_initialized := 1\<rparr>))
       (Some (matrix_2x2 4096)) (Some (matrix_2x2 4112)) (Some (matrix_2x2 4128))
     = Some (ADEAD_OK, cpu_matmul (empty_world []) NULL 4096 4112 4128 2 2 2)
   \<and> adead_add (empty_world [])
       (Some (zero_runtime\<lparr>rt_backend_vtable := Some cpu_vtable, rt_initialized := 1\<rparr>))
       (Some (matrix_2x2 4096)) (Some (matrix_2x2 4112)) (Some (matrix_2x2 4128))
     = Some (ADEAD_OK, cpu_add (empty_world []) NULL 4096 4112 4128 4)"
proof -
  have vt: "rt_backend_vtable (zero_runtime\<lparr>rt_backend_vtable := Some cpu_vtable, rt_initialized := 1\<rparr>)
              = Some cpu_vtable"
    by simp
  have numel: "adead_tensor_numel (matrix_2x2 4096) = Some 4"
    by (simp add: adead_tensor_numel_def matrix_2x2_def upt_conv_Cons)
  show ?thesis
    using operations_check_pointers_only
      [where rt = None and a = "Some (matrix_2x2 4096)" and b = "Some (matrix_2x2 4112)"
         and c = "Some (matrix_2x2 4128)" and w = "empty_world []" and data_ptr = NULL
         and sz = 16 and shape_ptr = None and ndim = 0 and dtype = ADEAD_DTYPE_F32
         and r = "zero_runtime\<lparr>rt_backend_vtable := Some cpu_vtable, rt_initialized := 1\<rparr>"
         and v = 0 and vt = cpu_vtable and ta = "matrix_2x2 4096" and tb = "matrix_2x2 4112"
         and tc = "matrix_2x2 4128" and numel = 4]
      vt numel
    by (simp add: cpu_vtable_def matrix_2x2_def zero_runtime_def)
qed

text \<open>
  Against C1 as stated: the context that \<open>adead_init\<close> leaves when the allocation
  of the backend context fails has the CPU table installed and \<open>initialized\<close> 0.
  On it \<open>adead_matmul\<close> calls the kernel and returns \<open>ADEAD_OK\<close>, not
  \<open>ADEAD_ERROR_INVALID_PARAM\<close>.
\<close>

theorem matmul_on_uninitialized_context:
  "rt_initialized (zero_runtime\<lparr>rt_backend_vtable := Some cpu_vtable\<rparr>) = 0
   \<and> adead_matmul (empty_world [])
       (Some (zero_runtime\<lparr>rt_backend_vtable := Some cpu_vtable\<rparr>))
       (Some (matrix_2x2 4096)) (Some (matrix_2x2 4112)) (Some (matrix_2x2 4128))
     = Some (ADEAD_OK,
             (empty_world [])\<lparr>kernel_calls := [MatmulCall NULL 4096 4112 4128 2 2 2]\<rparr>)
   \<and> fst (snd (adead_init (empty_world [268435456, 536870912]) (Some zero_runtime)
                  ADEAD_BACKEND_CPU))
     = Some (zero_runtime\<lparr>rt_backend_vtable := Some cpu_vtable\<rparr>)"
proof -
  have a: "rt_initialized (zero_runtime\<lparr>rt_backend_vtable := Some cpu_vtable\<rparr>) = 0"
    by (simp add: zero_runtime_def)
  have b: "adead_matmul (empty_world [])
       (Some (zero_runtime\<lparr>rt_backend_vtable := Some cpu_vtable\<rparr>))
       (Some (matrix_2x2 4096)) (Some (matrix_2x2 4112)) (Some (matrix_2x2 4128))
     = Some (ADEAD_OK,
             (empty_world [])\<lparr>kernel_calls := [MatmulCall NULL 4096 4112 4128 2 2 2]\<rparr>)"
    by (simp add: adead_matmul_def cpu_vtable_def cpu_matmul_def matrix_2x2_def
        zero_runtime_def empty_world_def)
  have sb: "select_backend ADEAD_BACKEND_CPU = Some (cpu_vtable, 0)"
    by (simp add: select_backend_def)
  have c: "fst (snd (adead_init (empty_world [268435456, 536870912]) (Some zero_runtime)
                  ADEAD_BACKEND_CPU))
     = Some (zero_runtime\<lparr>rt_backend_vtable := Some cpu_vtable\<rparr>)"
    by (simp add: adead_init_def memory_init_def arena_init_def pool_init_def malloc_def
        sb cpu_vtable_def cpu_init_def Let_def split_beta memory_destroy_def
        arena_destroy_def pool_destroy_def c_free_def empty_world_def
        zero_memory_manager_def zero_runtime_def zero_arena_def zero_pool_def)
  show ?thesis using a b c by blast
qed

subsection \<open>C2\<close>

text \<open>The loops of tensor creation on the shapes 2, 3 and 2, 3, 4.\<close>

lemma copy_shape_2_3: "copy_shape [2, 3] 2 (replicate 8 0) = ([2, 3, 0, 0, 0, 0, 0, 0], 6)"
  by (simp add: copy_shape_def upt_conv_Cons numeral_eq_Suc)

lemma strides_2_3: "row_major_strides [2, 3] 2 ((replicate 8 0)[Suc 0 := 4]) = [12, 4, 0, 0, 0, 0, 0, 0]"
  by (simp add: row_major_strides_def upt_conv_Cons numeral_eq_Suc)

lemma copy_shape_2_3_4: "copy_shape [2, 3, 4] 3 (replicate 8 0) = ([2, 3, 4, 0, 0, 0, 0, 0], 24)"
  by (simp add: copy_shape_def upt_conv_Cons numeral_eq_Suc)

lemma strides_2_3_4:
  "row_major_strides [2, 3, 4] 3 ((replicate 8 0)[2 := 4]) = [48, 16, 4, 0, 0, 0, 0, 0]"
  by (simp add: row_major_strides_def upt_conv_Cons numeral_eq_Suc)

text \<open>
  An instance of C2 as amended: \<open>malloc\<close> answers \<open>NULL\<close> to the CPU backend, and
  the descriptor keeps what was computed for the shape 2, 3 of \<open>float\<close>.
\<close>

theorem create_alloc_failure_witness:
  "adead_tensor_create (empty_world [NULL])
      (Some (zero_runtime\<lparr>rt_backend_vtable := Some cpu_vtable, rt_backend_ctx := 8192,
                          rt_initialized := 1\<rparr>))
      (Some zero_tensor) (Some [2, 3]) 2 ADEAD_DTYPE_F32
   = Some (ADEAD_ERROR_OUT_OF_MEMORY,
           Some \<lparr>tensor_data = NULL, tensor_shape = [2, 3, 0, 0, 0, 0, 0, 0],
                 tensor_strides = [12, 4, 0, 0, 0, 0, 0, 0], tensor_ndim = 2,
                 tensor_dtype = ADEAD_DTYPE_F32, tensor_device = ADEAD_BACKEND_CPU,
                 tensor_size_bytes = 24\<rparr>,
           empty_world [])"
proof -
  have fail: "vt_alloc cpu_vtable (empty_world [NULL]) 8192 24 = Some (NULL, empty_world [])"
    by (simp add: cpu_vtable_def cpu_alloc_def malloc_def empty_world_def)
  show ?thesis
    using create_alloc_failure
      [where ndim = 2 and shp = "[2, 3]" and vt = cpu_vtable and w = "empty_world [NULL]"
         and r = "zero_runtime\<lparr>rt_backend_vtable := Some cpu_vtable, rt_backend_ctx := 8192,
                              rt_initialized := 1\<rparr>"
         and dtype = ADEAD_DTYPE_F32 and w' = "empty_world []" and ?t0.0 = zero_tensor]
      fail
    by (simp add: copy_shape_2_3 strides_2_3 adead_dtype_size_def zero_runtime_def)
qed

text \<open>
  Against C2 as stated: with the allocator out of answers the call returns
  \<open>ADEAD_ERROR_OUT_OF_MEMORY\<close>, and the descriptor has \<open>ndim\<close> 2, the shape, the
  strides and 24 bytes of size. It is not zeroed.
\<close>

theorem create_alloc_failure_not_zeroed:
  "adead_tensor_create (empty_world [])
      (Some (zero_runtime\<lparr>rt_backend_vtable := Some cpu_vtable, rt_backend_ctx := 8192,
                          rt_initialized := 1\<rparr>))
      (Some zero_tensor) (Some [2, 3]) 2 ADEAD_DTYPE_F32
   = Some (ADEAD_ERROR_OUT_OF_MEMORY,
           Some \<lparr>tensor_data = NULL, tensor_shape = [2, 3, 0, 0, 0, 0, 0, 0],
                 tensor_strides = [12, 4, 0, 0, 0, 0, 0, 0], tensor_ndim = 2,
                 tensor_dtype = ADEAD_DTYPE_F32, tensor_device = ADEAD_BACKEND_CPU,
                 tensor_size_bytes = 24\<rparr>,
           empty_world [])
   \<and> \<lparr>tensor_data = NULL, tensor_shape = [2, 3, 0, 0, 0, 0, 0, 0],
        tensor_strides = [12, 4, 0, 0, 0, 0, 0, 0], tensor_ndim = 2,
        tensor_dtype = ADEAD_DTYPE_F32, tensor_device = ADEAD_BACKEND_CPU,
        tensor_size_bytes = 24\<rparr> \<noteq> zero_tensor"
  by (simp add: adead_tensor_create_def zero_tensor_def zero_runtime_def cpu_vtable_def
      cpu_alloc_def malloc_def empty_world_def copy_shape_2_3[simplified]
      strides_2_3[simplified] adead_dtype_size_def Let_def)

subsection \<open>C3\<close>

text \<open>
  Instances of C3 as amended: 200 bytes at offset 100 start at 112 in an arena of
  1024 bytes, and do not fit in one of 256.
\<close>

theorem arena_alloc_spec_witness:
  "adead_arena_alloc
       (Some \<lparr>arena_base = 4096, arena_offset = 100, arena_capacity = 1024, arena_peak = 100\<rparr>)
       200 16
     = (4208, Some \<lparr>arena_base = 4096, arena_offset = 312, arena_capacity = 1024,
                     arena_peak = 312\<rparr>)
   \<and> adead_arena_alloc
       (Some \<lparr>arena_base = 4096, arena_offset = 100, arena_capacity = 256, arena_peak = 100\<rparr>)
       200 16
     = (NULL, Some \<lparr>arena_base = 4096, arena_offset = 100, arena_capacity = 256,
                     arena_peak = 100\<rparr>)"
proof -
  have al: "adead_align_up 100 16 = 112"
    by (simp add: adead_align_up_def)
  have b: "arena_base \<lparr>arena_base = 4096, arena_offset = 100, arena_capacity = 1024, arena_peak = 100\<rparr> \<noteq> NULL"
    "arena_base \<lparr>arena_base = 4096, arena_offset = 100, arena_capacity = 256, arena_peak = 100\<rparr> \<noteq> NULL"
    by simp_all
  from arena_alloc_spec[OF b(1), where sz = 200 and al = 16]
    arena_alloc_spec[OF b(2), where sz = 200 and al = 16]
  show ?thesis
    by (simp add: al)
qed

text \<open>
  Against C3 as stated, at two inputs. A request of 0 bytes on an empty arena of 64
  bytes does not exceed the capacity, yet the call returns \<open>NULL\<close> and not
  \<open>base + 0\<close>. A request of \<open>2 ^ 64 - 100\<close> bytes at offset 100 of an arena of
  1024 bytes exceeds the capacity, yet the call returns the pointer 4208 and sets
  the offset to 12: the sum computed in \<open>size_t\<close> has wrapped.
\<close>

theorem arena_alloc_size_zero_or_wrapping:
  "adead_arena_alloc
       (Some \<lparr>arena_base = 4096, arena_offset = 0, arena_capacity = 64, arena_peak = 0\<rparr>) 0 16
     = (NULL, Some \<lparr>arena_base = 4096, arena_offset = 0, arena_capacity = 64, arena_peak = 0\<rparr>)
   \<and> \<not> (unat (adead_align_up 0 16) + unat (0 :: usize) > unat (64 :: usize))
   \<and> 4096 + adead_align_up 0 16 \<noteq> NULL
   \<and> adead_arena_alloc
       (Some \<lparr>arena_base = 4096, arena_offset = 100, arena_capacity = 1024, arena_peak = 100\<rparr>)
       18446744073709551516 16
     = (4208, Some \<lparr>arena_base = 4096, arena_offset = 12, arena_capacity = 1024,
                     arena_peak = 100\<rparr>)
   \<and> unat (adead_align_up 100 16) + unat (18446744073709551516 :: usize) > unat (1024 :: usize)"
  by (simp add: adead_arena_alloc_def arena_alloc_def adead_align_up_def)

subsection \<open>C4\<close>

text \<open>
  An instance of C4: the pool at address 4096. The allocations return 4864, 4608,
  4352, 4096 and then \<open>NULL\<close>; after freeing 4608 it is allocated again.
\<close>

theorem pool_256_4_witness:
  "fst (adead_pool_init (empty_world [4096]) (Some zero_pool) 256 4) = ADEAD_OK
   \<and> fst (pool_alloc_times 5
            (snd (snd (adead_pool_init (empty_world [4096]) (Some zero_pool) 256 4)))
            (fst (snd (adead_pool_init (empty_world [4096]) (Some zero_pool) 256 4))))
       = [4864, 4608, 4352, 4096, NULL]
   \<and> fst (adead_pool_alloc
            (snd (adead_pool_free
                    (snd (snd (adead_pool_init (empty_world [4096]) (Some zero_pool) 256 4)))
                    (snd (pool_alloc_times 5
                       (snd (snd (adead_pool_init (empty_world [4096]) (Some zero_pool) 256 4)))
                       (fst (snd (adead_pool_init (empty_world [4096]) (Some zero_pool) 256 4)))))
                    4608))
            (fst (adead_pool_free
                    (snd (snd (adead_pool_init (empty_world [4096]) (Some zero_pool) 256 4)))
                    (snd (pool_alloc_times 5
                       (snd (snd (adead_pool_init (empty_world [4096]) (Some zero_pool) 256 4)))
                       (fst (snd (adead_pool_init (empty_world [4096]) (Some zero_pool) 256 4)))))
                    4608)))
       = 4608"
proof -
  define I where "I = adead_pool_init (empty_world [4096]) (Some zero_pool) 256 4"
  define A where "A = pool_alloc_times 5 (snd (snd I)) (fst (snd I))"
  define F where "F = adead_pool_free (snd (snd I)) (snd A) 4608"
  have s: "malloc_script (empty_world [4096]) = 4096 # []"
    by (simp add: empty_world_def)
  have "fst I = ADEAD_OK \<and> fst A = [4864, 4608, 4352, 4096, NULL]
      \<and> fst (adead_pool_alloc (snd F) (fst F)) = 4608"
    using pool_256_4
      [where w = "empty_world [4096]" and base = 4096 and rest = "[]" and pool = zero_pool
         and err = "fst I" and ?p0.0 = "fst (snd I)" and ?w0.0 = "snd (snd I)"
         and ptrs = "fst A" and ?p5.0 = "snd A" and b = 4608
         and ?p6.0 = "fst F" and ?w6.0 = "snd F", OF s]
    by (simp add: I_def[symmetric] A_def[symmetric] F_def[symmetric])
  then show ?thesis
    by (simp add: I_def A_def F_def)
qed

subsection \<open>C5\<close>

text \<open>
  An instance of C5: a memory manager with a scratch arena of 1024 bytes at 4096.
  After the two allocations and the reset \<open>total_freed\<close> is 312, not 1024.
\<close>

theorem scratch_counters_witness:
  "map_option mm_total_alloc
     (snd (adead_memory_scratch
        (snd (adead_memory_scratch
           (fst (snd (adead_memory_init (empty_world [4096, 8192])
                        (Some zero_memory_manager) 1024 1024))) 100)) 200)) = Some 300
   \<and> map_option mm_alloc_count
     (snd (adead_memory_scratch
        (snd (adead_memory_scratch
           (fst (snd (adead_memory_init (empty_world [4096, 8192])
                        (Some zero_memory_manager) 1024 1024))) 100)) 200)) = Some 2
   \<and> map_option mm_total_freed
     (adead_memory_scratch_reset
       (snd (adead_memory_scratch
          (snd (adead_memory_scratch
             (fst (snd (adead_memory_init (empty_world [4096, 8192])
                          (Some zero_memory_manager) 1024 1024))) 100)) 200))) = Some 312
   \<and> map_option mm_free_count
     (adead_memory_scratch_reset
       (snd (adead_memory_scratch
          (snd (adead_memory_scratch
             (fst (snd (adead_memory_init (empty_world [4096, 8192])
                          (Some zero_memory_manager) 1024 1024))) 100)) 200))) = Some 1"
proof -
  obtain mm w' where init:
    "adead_memory_init (empty_world [4096, 8192]) (Some zero_memory_manager) 1024 1024
       = (ADEAD_OK, Some mm, w')"
    by (simp add: adead_memory_init_def memory_init_def arena_init_def pool_init_def malloc_def
        empty_world_def zero_memory_manager_def zero_arena_def zero_pool_def Let_def split_beta)
  then have "memory_init (empty_world [4096, 8192]) 1024 1024 = (ADEAD_OK, mm, w')"
    by (auto simp: adead_memory_init_def split: prod.splits)
  note f = memory_init_ok[OF this]
  have al: "adead_align_up 0 16 = 0" "adead_align_up 100 16 = 112"
    by (simp_all add: adead_align_up_def)
  have s1: "arena_alloc (mm_scratch mm) 100 16 =
      (arena_base (mm_scratch mm), (mm_scratch mm)\<lparr>arena_offset := 100, arena_peak := 100\<rparr>)"
    using f by (simp add: arena_alloc_def al Let_def)
  obtain p1 mm1 where a1: "adead_memory_scratch (Some mm) 100 = (p1, Some mm1)"
    using f by (simp add: adead_memory_scratch_def s1 Let_def)
  from a1 s1 f have p1: "p1 \<noteq> NULL"
    and sc1: "mm_scratch mm1 = (mm_scratch mm)\<lparr>arena_offset := 100, arena_peak := 100\<rparr>"
    by (auto simp: adead_memory_scratch_def Let_def)
  have base: "arena_base (mm_scratch mm) = 4096"
    using init
    by (auto simp: adead_memory_init_def memory_init_def arena_init_def pool_init_def malloc_def
        empty_world_def zero_memory_manager_def zero_arena_def zero_pool_def Let_def split_beta)
  have s2: "arena_alloc (mm_scratch mm1) 200 16 =
      (4208, (mm_scratch mm)\<lparr>arena_offset := 312, arena_peak := 312\<rparr>)"
    using f by (simp add: arena_alloc_def sc1 al base Let_def)
  obtain p2 mm2 where a2: "adead_memory_scratch (Some mm1) 200 = (p2, Some mm2)"
    by (simp add: adead_memory_scratch_def s2 Let_def)
  with s2 have p2: "p2 \<noteq> NULL"
    by (auto simp: adead_memory_scratch_def Let_def)
  show ?thesis
    using scratch_counters[OF init a1 p1 a2 p2, of mm2]
    by (simp add: init a1 a2)
qed

subsection \<open>C6\<close>

text \<open>
  Instances of C6: \<open>adead_memory_init\<close> whose pool cannot be allocated after the
  arena was; \<open>adead_init\<close> whose backend context cannot be allocated after arena
  and pool were; \<open>adead_init\<close> with the unknown backend identity 7. Each returns
  an error, and no block is held afterwards.
\<close>

theorem init_failure_holds_nothing_witness:
  "fst (adead_memory_init (empty_world [4096]) (Some zero_memory_manager) 1024 1024)
     = ADEAD_ERROR_OUT_OF_MEMORY
   \<and> fst (snd (adead_memory_init (empty_world [4096]) (Some zero_memory_manager) 1024 1024))
     = Some zero_memory_manager
   \<and> live_blocks
       (snd (snd (adead_memory_init (empty_world [4096]) (Some zero_memory_manager) 1024 1024)))
     = {#}
   \<and> fst (adead_init (empty_world [268435456, 536870912]) (Some zero_runtime) ADEAD_BACKEND_CPU)
     = ADEAD_ERROR_OUT_OF_MEMORY
   \<and> live_blocks
       (snd (snd (adead_init (empty_world [268435456, 536870912]) (Some zero_runtime)
                    ADEAD_BACKEND_CPU)))
     = {#}
   \<and> fst (adead_init (empty_world [268435456, 536870912]) (Some zero_runtime) 7)
     = ADEAD_ERROR_INVALID_PARAM
   \<and> live_blocks
       (snd (snd (adead_init (empty_world [268435456, 536870912]) (Some zero_runtime) 7)))
     = {#}"
proof -
  have e1: "fst (adead_memory_init (empty_world [4096]) (Some zero_memory_manager) 1024 1024)
     = ADEAD_ERROR_OUT_OF_MEMORY"
    by (simp add: adead_memory_init_def memory_init_def arena_init_def pool_init_def malloc_def
        arena_destroy_def empty_world_def zero_memory_manager_def zero_arena_def zero_pool_def
        Let_def split_beta)
  have sb: "select_backend ADEAD_BACKEND_CPU = Some (cpu_vtable, 0)" "select_backend 7 = None"
    by (simp_all add: select_backend_def)
  have e2: "fst (adead_init (empty_world [268435456, 536870912]) (Some zero_runtime)
                   ADEAD_BACKEND_CPU) = ADEAD_ERROR_OUT_OF_MEMORY"
    by (simp add: adead_init_def memory_init_def arena_init_def pool_init_def malloc_def
        sb cpu_vtable_def cpu_init_def Let_def split_beta empty_world_def
        zero_memory_manager_def zero_runtime_def zero_arena_def zero_pool_def)
  have e3: "fst (adead_init (empty_world [268435456, 536870912]) (Some zero_runtime) 7)
              = ADEAD_ERROR_INVALID_PARAM"
    by (simp add: adead_init_def memory_init_def arena_init_def pool_init_def malloc_def
        sb Let_def split_beta empty_world_def
        zero_memory_manager_def zero_runtime_def zero_arena_def zero_pool_def)
  have l: "live_blocks (empty_world s) = {#}" for s
    by (simp add: empty_world_def)
  show ?thesis
    using init_failure_holds_nothing
        [where w = "empty_world [4096]" and m = zero_memory_manager and ss = 1024 and ps = 1024
           and r = zero_runtime and b = 0 and ao = None and po = None]
      init_failure_holds_nothing
        [where w = "empty_world [268435456, 536870912]" and r = zero_runtime
           and b = ADEAD_BACKEND_CPU and ao = None and po = None]
      init_failure_holds_nothing
        [where w = "empty_world [268435456, 536870912]" and r = zero_runtime
           and b = 7 and ao = None and po = None]
      e1 e2 e3
    by (simp add: l)
qed

subsection \<open>C7\<close>

text \<open>
  Instances of C7: with three allocations that succeed, \<open>adead_init\<close> for CUDA and
  for VULKAN returns \<open>ADEAD_OK\<close> and reports the backend CPU.
\<close>

theorem gpu_request_runs_on_cpu_witness:
  "fst (adead_init (empty_world [268435456, 536870912, 805306368]) (Some zero_runtime)
          ADEAD_BACKEND_CUDA) = ADEAD_OK
   \<and> adead_get_backend
       (fst (snd (adead_init (empty_world [268435456, 536870912, 805306368])
                    (Some zero_runtime) ADEAD_BACKEND_CUDA))) = ADEAD_BACKEND_CPU
   \<and> adead_get_backend_name
       (fst (snd (adead_init (empty_world [268435456, 536870912, 805306368])
                    (Some zero_runtime) ADEAD_BACKEND_CUDA))) = ''CPU''
   \<and> fst (adead_init (empty_world [268435456, 536870912, 805306368]) (Some zero_runtime)
          ADEAD_BACKEND_VULKAN) = ADEAD_OK
   \<and> adead_get_backend
       (fst (snd (adead_init (empty_world [268435456, 536870912, 805306368])
                    (Some zero_runtime) ADEAD_BACKEND_VULKAN))) = ADEAD_BACKEND_CPU
   \<and> adead_get_backend_name
       (fst (snd (adead_init (empty_world [268435456, 536870912, 805306368])
                    (Some zero_runtime) ADEAD_BACKEND_VULKAN))) = ''CPU''"
proof -
  have s: "malloc_script (empty_world [268435456, 536870912, 805306368])
             = 268435456 # 536870912 # 805306368 # []"
    by (simp add: empty_world_def)
  have nz: "(268435456 :: addr) \<noteq> NULL" "(536870912 :: addr) \<noteq> NULL"
    "(805306368 :: addr) \<noteq> NULL"
    by simp_all
  have b: "ADEAD_BACKEND_CUDA = ADEAD_BACKEND_CUDA \<or> ADEAD_BACKEND_CUDA = ADEAD_BACKEND_VULKAN"
    "ADEAD_BACKEND_VULKAN = ADEAD_BACKEND_CUDA \<or> ADEAD_BACKEND_VULKAN = ADEAD_BACKEND_VULKAN"
    by simp_all
  note cuda = gpu_request_runs_on_cpu
        [OF b(1), where w = "empty_world [268435456, 536870912, 805306368]"
           and ?rt0.0 = zero_runtime
           and ?p1.0 = 268435456 and ?p2.0 = 536870912 and ?p3.0 = 805306368 and rest = "[]"]
  note vulkan = gpu_request_runs_on_cpu
        [OF b(2), where w = "empty_world [268435456, 536870912, 805306368]"
           and ?rt0.0 = zero_runtime
           and ?p1.0 = 268435456 and ?p2.0 = 536870912 and ?p3.0 = 805306368 and rest = "[]"]
  from cuda s nz have c: "fst (adead_init (empty_world [268435456, 536870912, 805306368])
      (Some zero_runtime) ADEAD_BACKEND_CUDA) = ADEAD_OK"
    by blast
  from vulkan s nz have v: "fst (adead_init (empty_world [268435456, 536870912, 805306368])
      (Some zero_runtime) ADEAD_BACKEND_VULKAN) = ADEAD_OK"
    by blast
  from c v cuda vulkan show ?thesis
    by blast
qed

subsection \<open>C8\<close>

text \<open>
  Instances of C8 on a memory where the byte at an address is the low byte of the
  address: a tensor of 16 bytes at 4096 (bytes 0 to 15) and a buffer at 8320 (bytes
  128 and up). A request for 64 bytes copies 16 in either direction: byte 15 of the
  destination is the source's, byte 16 is as it was. A request for 8 bytes copies
  8.
\<close>

theorem copy_clamps_witness:
  "map_option fst
     (adead_tensor_copy_to address_pattern_world
        (Some (zero_runtime\<lparr>rt_backend_vtable := Some cpu_vtable, rt_initialized := 1\<rparr>))
        (Some (matrix_2x2 4096)) 8320 64) = Some ADEAD_OK
   \<and> bytes address_pattern_world 4111 = 15 \<and> bytes address_pattern_world 8335 = 143
   \<and> bytes address_pattern_world 4112 = 16 \<and> bytes address_pattern_world 8336 = 144
   \<and> byte_after
     (adead_tensor_copy_to address_pattern_world
        (Some (zero_runtime\<lparr>rt_backend_vtable := Some cpu_vtable, rt_initialized := 1\<rparr>))
        (Some (matrix_2x2 4096)) 8320 64) 8335 = Some 15
   \<and> byte_after
     (adead_tensor_copy_to address_pattern_world
        (Some (zero_runtime\<lparr>rt_backend_vtable := Some cpu_vtable, rt_initialized := 1\<rparr>))
        (Some (matrix_2x2 4096)) 8320 64) 8336 = Some 144
   \<and> byte_after
     (adead_tensor_copy_from address_pattern_world
        (Some (zero_runtime\<lparr>rt_backend_vtable := Some cpu_vtable, rt_initialized := 1\<rparr>))
        (Some (matrix_2x2 4096)) 8320 64) 4111 = Some 143
   \<and> byte_after
     (adead_tensor_copy_from address_pattern_world
        (Some (zero_runtime\<lparr>rt_backend_vtable := Some cpu_vtable, rt_initialized := 1\<rparr>))
        (Some (matrix_2x2 4096)) 8320 64) 4112 = Some 16
   \<and> byte_after
     (adead_tensor_copy_from address_pattern_world
        (Some (zero_runtime\<lparr>rt_backend_vtable := Some cpu_vtable, rt_initialized := 1\<rparr>))
        (Some (matrix_2x2 4096)) 8320 8) 4103 = Some 135
   \<and> byte_after
     (adead_tensor_copy_from address_pattern_world
        (Some (zero_runtime\<lparr>rt_backend_vtable := Some cpu_vtable, rt_initialized := 1\<rparr>))
        (Some (matrix_2x2 4096)) 8320 8) 4104 = Some 8"
proof -
  let ?r = "zero_runtime\<lparr>rt_backend_vtable := Some cpu_vtable, rt_initialized := 1\<rparr>"
  have vt: "rt_backend_vtable ?r = Some cpu_vtable"
    by simp
  have nn: "(8320 :: addr) \<noteq> NULL" by simp
  have sb: "tensor_size_bytes (matrix_2x2 4096) = 16" "tensor_data (matrix_2x2 4096) = 4096"
    by (simp_all add: matrix_2x2_def)
  have pat: "bytes address_pattern_world y = ucast y" for y
    by (simp add: address_pattern_world_def)
  have ok: "map_option fst (adead_tensor_copy_to address_pattern_world (Some ?r)
               (Some (matrix_2x2 4096)) 8320 64) = Some ADEAD_OK"
    by (simp add: copy_clamps[OF vt nn, THEN conjunct2, THEN conjunct1])
  have b1: "byte_after (adead_tensor_copy_to address_pattern_world (Some ?r)
               (Some (matrix_2x2 4096)) 8320 64) 8335 = Some 15"
    using copy_clamps[OF vt nn, where w = address_pattern_world and t = "matrix_2x2 4096"
        and sz = 64 and i = 15 and x = 0, THEN conjunct2, THEN conjunct2, THEN mp, OF refl,
        THEN conjunct2, THEN conjunct2]
    by (simp add: sb pat)
  have b2: "byte_after (adead_tensor_copy_to address_pattern_world (Some ?r)
               (Some (matrix_2x2 4096)) 8320 64) 8336 = Some 144"
    using copy_clamps[OF vt nn, where w = address_pattern_world and t = "matrix_2x2 4096"
        and sz = 64 and i = 16 and x = 0, THEN conjunct2, THEN conjunct2, THEN mp, OF refl,
        THEN conjunct2, THEN conjunct2]
    by (simp add: sb pat)
  have b3: "byte_after (adead_tensor_copy_from address_pattern_world (Some ?r)
               (Some (matrix_2x2 4096)) 8320 64) 4111 = Some 143"
    using copy_clamps[OF vt nn, where w = address_pattern_world and t = "matrix_2x2 4096"
        and sz = 64 and i = 15 and x = 0, THEN conjunct2, THEN conjunct2, THEN mp, OF refl,
        THEN conjunct2, THEN conjunct2]
    by (simp add: sb pat)
  have b4: "byte_after (adead_tensor_copy_from address_pattern_world (Some ?r)
               (Some (matrix_2x2 4096)) 8320 64) 4112 = Some 16"
    using copy_clamps[OF vt nn, where w = address_pattern_world and t = "matrix_2x2 4096"
        and sz = 64 and i = 16 and x = 0, THEN conjunct2, THEN conjunct2, THEN mp, OF refl,
        THEN conjunct2, THEN conjunct2]
    by (simp add: sb pat)
  have b5: "byte_after (adead_tensor_copy_from address_pattern_world (Some ?r)
               (Some (matrix_2x2 4096)) 8320 8) 4103 = Some 135"
    using copy_clamps[OF vt nn, where w = address_pattern_world and t = "matrix_2x2 4096"
        and sz = 8 and i = 7 and x = 0, THEN conjunct2, THEN conjunct2, THEN mp, OF refl,
        THEN conjunct2, THEN conjunct2]
    by (simp add: sb pat)
  have b6: "byte_after (adead_tensor_copy_from address_pattern_world (Some ?r)
               (Some (matrix_2x2 4096)) 8320 8) 4104 = Some 8"
    using copy_clamps[OF vt nn, where w = address_pattern_world and t = "matrix_2x2 4096"
        and sz = 8 and i = 8 and x = 0, THEN conjunct2, THEN conjunct2, THEN mp, OF refl,
        THEN conjunct2, THEN conjunct2]
    by (simp add: sb pat)
  show ?thesis
    using ok b1 b2 b3 b4 b5 b6 by (simp add: pat)
qed

subsection \<open>C9\<close>

text \<open>
  Instances of C9 as amended: tensors of \<open>float\<close> created on the CPU backend,
  whose layouts fit. The shape 2, 3 gets the strides 12, 4; the shape 2, 3, 4 has
  24 elements.
\<close>

theorem created_tensor_row_major_witness:
  "map_option fst
     (adead_tensor_create (empty_world [4096])
        (Some (zero_runtime\<lparr>rt_backend_vtable := Some cpu_vtable, rt_backend_ctx := 8192,
                            rt_initialized := 1\<rparr>))
        (Some zero_tensor) (Some [2, 3]) 2 ADEAD_DTYPE_F32) = Some ADEAD_OK
   \<and> map_option (fst \<circ> snd)
     (adead_tensor_create (empty_world [4096])
        (Some (zero_runtime\<lparr>rt_backend_vtable := Some cpu_vtable, rt_backend_ctx := 8192,
                            rt_initialized := 1\<rparr>))
        (Some zero_tensor) (Some [2, 3]) 2 ADEAD_DTYPE_F32)
     = Some (Some \<lparr>tensor_data = 4096, tensor_shape = [2, 3, 0, 0, 0, 0, 0, 0],
                   tensor_strides = [12, 4, 0, 0, 0, 0, 0, 0], tensor_ndim = 2,
                   tensor_dtype = ADEAD_DTYPE_F32, tensor_device = ADEAD_BACKEND_CPU,
                   tensor_size_bytes = 24\<rparr>)
   \<and> layout_fits 4 [2, 3]
   \<and> take 2 [12, 4, 0, 0, 0, 0, 0, 0 :: u64] = [12, 4]
   \<and> map_option (fst \<circ> snd)
     (adead_tensor_create (empty_world [4096])
        (Some (zero_runtime\<lparr>rt_backend_vtable := Some cpu_vtable, rt_backend_ctx := 8192,
                            rt_initialized := 1\<rparr>))
        (Some zero_tensor) (Some [2, 3, 4]) 3 ADEAD_DTYPE_F32)
     = Some (Some \<lparr>tensor_data = 4096, tensor_shape = [2, 3, 4, 0, 0, 0, 0, 0],
                   tensor_strides = [48, 16, 4, 0, 0, 0, 0, 0], tensor_ndim = 3,
                   tensor_dtype = ADEAD_DTYPE_F32, tensor_device = ADEAD_BACKEND_CPU,
                   tensor_size_bytes = 96\<rparr>)
   \<and> layout_fits 4 [2, 3, 4]
   \<and> adead_tensor_numel
       \<lparr>tensor_data = 4096, tensor_shape = [2, 3, 4, 0, 0, 0, 0, 0],
        tensor_strides = [48, 16, 4, 0, 0, 0, 0, 0], tensor_ndim = 3,
        tensor_dtype = ADEAD_DTYPE_F32, tensor_device = ADEAD_BACKEND_CPU,
        tensor_size_bytes = 96\<rparr> = Some 24"
proof -
  let ?r = "zero_runtime\<lparr>rt_backend_vtable := Some cpu_vtable, rt_backend_ctx := 8192,
                          rt_initialized := 1\<rparr>"
  let ?w' = "\<lambda>n. (empty_world [4096])\<lparr>malloc_script := [], live_blocks := {#4096#},
       cpu_ctx_at := (cpu_ctx_at (empty_world [4096]))
          (8192 := \<lparr>ctx_allocated = n, ctx_peak = n\<rparr>)\<rparr>"
  let ?t2 = "\<lparr>tensor_data = 4096, tensor_shape = [2, 3, 0, 0, 0, 0, 0, 0],
                   tensor_strides = [12, 4, 0, 0, 0, 0, 0, 0], tensor_ndim = 2,
                   tensor_dtype = ADEAD_DTYPE_F32, tensor_device = ADEAD_BACKEND_CPU,
                   tensor_size_bytes = 24\<rparr>"
  let ?t3 = "\<lparr>tensor_data = 4096, tensor_shape = [2, 3, 4, 0, 0, 0, 0, 0],
                   tensor_strides = [48, 16, 4, 0, 0, 0, 0, 0], tensor_ndim = 3,
                   tensor_dtype = ADEAD_DTYPE_F32, tensor_device = ADEAD_BACKEND_CPU,
                   tensor_size_bytes = 96\<rparr>"
  have c2: "adead_tensor_create (empty_world [4096]) (Some ?r) (Some zero_tensor)
              (Some [2, 3]) 2 ADEAD_DTYPE_F32 = Some (ADEAD_OK, Some ?t2, ?w' 24)"
    by (simp add: adead_tensor_create_def zero_tensor_def zero_runtime_def cpu_vtable_def
        cpu_alloc_def malloc_def empty_world_def copy_shape_2_3[simplified]
        strides_2_3[simplified] adead_dtype_size_def Let_def)
  have c3: "adead_tensor_create (empty_world [4096]) (Some ?r) (Some zero_tensor)
              (Some [2, 3, 4]) 3 ADEAD_DTYPE_F32 = Some (ADEAD_OK, Some ?t3, ?w' 96)"
    by (simp add: adead_tensor_create_def zero_tensor_def zero_runtime_def cpu_vtable_def
        cpu_alloc_def malloc_def empty_world_def copy_shape_2_3_4[simplified]
        strides_2_3_4[simplified] adead_dtype_size_def Let_def)
  have es: "adead_dtype_size ADEAD_DTYPE_F32 = 4"
    by (simp add: adead_dtype_size_def)
  have f2: "layout_fits 4 [2, 3]" and f3: "layout_fits 4 [2, 3, 4]"
    by (simp_all add: layout_fits_def row_major_stride_def upt_conv_Cons)
  have f2': "layout_fits (unat (adead_dtype_size ADEAD_DTYPE_F32))
               (map unat (take (unat (2 :: u32)) [2, 3 :: u64]))"
    using f2 by (simp add: es)
  have f3': "layout_fits (unat (adead_dtype_size ADEAD_DTYPE_F32))
               (map unat (take (unat (3 :: u32)) [2, 3, 4 :: u64]))"
    using f3 by (simp add: es)
  from created_tensor_row_major[OF c2 f2'] es
  have "take 2 (tensor_strides ?t2) = [12, 4]"
    by blast
  moreover from created_tensor_row_major[OF c3 f3']
  have "adead_tensor_numel ?t3 = Some 24"
    by blast
  ultimately show ?thesis
    using f2 f3 by (simp add: c2 c3)
qed

text \<open>
  Against C9 as stated: the shape 4, \<open>2 ^ 62\<close> of \<open>float\<close> is created with
  \<open>ADEAD_OK\<close>, with the strides 0, 4 and a byte size of 0, while
  \<open>strides[1] * shape[1]\<close> is \<open>4 * 2 ^ 62\<close>, which is not 0, and the
  \<open>2 ^ 64\<close> elements take \<open>2 ^ 66\<close> bytes.
\<close>

theorem create_overflowing_shape:
  "map_option fst
     (adead_tensor_create (empty_world [4096])
        (Some (zero_runtime\<lparr>rt_backend_vtable := Some cpu_vtable, rt_backend_ctx := 8192,
                            rt_initialized := 1\<rparr>))
        (Some zero_tensor) (Some [4, 4611686018427387904]) 2 ADEAD_DTYPE_F32) = Some ADEAD_OK
   \<and> map_option (fst \<circ> snd)
     (adead_tensor_create (empty_world [4096])
        (Some (zero_runtime\<lparr>rt_backend_vtable := Some cpu_vtable, rt_backend_ctx := 8192,
                            rt_initialized := 1\<rparr>))
        (Some zero_tensor) (Some [4, 4611686018427387904]) 2 ADEAD_DTYPE_F32)
     = Some (Some \<lparr>tensor_data = 4096,
                   tensor_shape = [4, 4611686018427387904, 0, 0, 0, 0, 0, 0],
                   tensor_strides = [0, 4, 0, 0, 0, 0, 0, 0], tensor_ndim = 2,
                   tensor_dtype = ADEAD_DTYPE_F32, tensor_device = ADEAD_BACKEND_CPU,
                   tensor_size_bytes = 0\<rparr>)
   \<and> unat (0 :: u64) \<noteq> unat (4 :: u64) * unat (4611686018427387904 :: u64)
   \<and> unat (0 :: u64)
       \<noteq> unat (4 :: u64) * unat (4611686018427387904 :: u64) * unat (4 :: u32)"
proof -
  have rep: "replicate 8 (0 :: u64) = [0, 0, 0, 0, 0, 0, 0, 0]"
    by (simp add: numeral_eq_Suc)
  have cs: "copy_shape [4, 4611686018427387904] 2 [0, 0, 0, 0, 0, 0, 0, 0]
      = ([4, 4611686018427387904, 0, 0, 0, 0, 0, 0], 0)"
    by (simp add: copy_shape_def upt_conv_Cons)
  have rs: "row_major_strides [4, 4611686018427387904] 2 [0, 4, 0, 0, 0, 0, 0, 0]
      = [0, 4, 0, 0, 0, 0, 0, 0]"
    by (simp add: row_major_strides_def upt_conv_Cons)
  show ?thesis
    by (simp add: adead_tensor_create_def zero_tensor_def zero_runtime_def cpu_vtable_def
        cpu_alloc_def malloc_def empty_world_def rep cs rs adead_dtype_size_def Let_def)
qed

subsection \<open>C10\<close>

text \<open>
  Instances of C10: a context with the CPU table and a backend context at 8192 that
  is still held. With \<open>initialized\<close> 0 the shutdown leaves context and world as
  they are, the block still held; with \<open>initialized\<close> 1 it leaves the zeroed
  context.
\<close>

theorem shutdown_idempotent_witness:
  "adead_shutdown ((empty_world [])\<lparr>live_blocks := {#8192#}\<rparr>)
      (Some (zero_runtime\<lparr>rt_backend_vtable := Some cpu_vtable, rt_backend_ctx := 8192\<rparr>))
     = (Some (zero_runtime\<lparr>rt_backend_vtable := Some cpu_vtable, rt_backend_ctx := 8192\<rparr>),
        (empty_world [])\<lparr>live_blocks := {#8192#}\<rparr>)
   \<and> fst (adead_shutdown ((empty_world [])\<lparr>live_blocks := {#8192#}\<rparr>)
      (Some (zero_runtime\<lparr>rt_backend_vtable := Some cpu_vtable, rt_backend_ctx := 8192,
                          rt_initialized := 1\<rparr>)))
     = Some zero_runtime"
proof -
  have z: "rt_initialized (zero_runtime\<lparr>rt_backend_vtable := Some cpu_vtable, rt_backend_ctx := 8192\<rparr>) = 0"
    "rt_initialized (zero_runtime\<lparr>rt_backend_vtable := Some cpu_vtable, rt_backend_ctx := 8192,
                          rt_initialized := 1\<rparr>) \<noteq> 0"
    by (simp_all add: zero_runtime_def)
  from shutdown_idempotent
      [where r = "zero_runtime\<lparr>rt_backend_vtable := Some cpu_vtable, rt_backend_ctx := 8192\<rparr>"
         and w = "(empty_world [])\<lparr>live_blocks := {#8192#}\<rparr>" and rt = None]
    shutdown_idempotent
      [where r = "zero_runtime\<lparr>rt_backend_vtable := Some cpu_vtable, rt_backend_ctx := 8192,
                          rt_initialized := 1\<rparr>"
         and w = "(empty_world [])\<lparr>live_blocks := {#8192#}\<rparr>" and rt = None]
    z
  show ?thesis by blast
qed

end
